theory Spec2Isabelle
  imports Complex_Main
begin

section \<open>Exceptions\<close>

text \<open>
  The Python exceptions that the modelled code paths raise, catch or let through. All of
  them are subclasses of \<open>Exception\<close>. A computation that may raise returns
  \<open>exn + 'a\<close>, with \<open>Inl\<close> for the exception.
\<close>

datatype exn =
    ValueError
  | OverflowError
  | EOFError
  | KeyError
  | IndexError
  | TypeError
  | AttributeError
  | RequestException
  | ValidationError
  | SQLAlchemyError
  | NoResultFound
  | MultipleResultsFound
  | OSError

section \<open>Dates and times (\<open>datetime\<close>, \<open>timedelta\<close>)\<close>

text \<open>
  A naive \<open>datetime\<close>. The calendar date is kept as its proleptic Gregorian ordinal
  (\<open>date.toordinal()\<close>: day 1 is 0001-01-01, a Monday), the time of day as the four
  fields that \<open>replace(hour=0, minute=0, second=0, microsecond=0)\<close> sets.
\<close>

record datetime =
  ordinal :: int
  hour :: int
  minute :: int
  second :: int
  microsecond :: int

text \<open>\<open>date.max.toordinal()\<close>, the ordinal of 9999-12-31.\<close>

definition MAXORDINAL :: int where
  "MAXORDINAL = 3652059"

definition valid_datetime :: "datetime \<Rightarrow> bool" where
  "valid_datetime d =
     (1 \<le> ordinal d \<and> ordinal d \<le> MAXORDINAL \<and>
      0 \<le> hour d \<and> hour d < 24 \<and>
      0 \<le> minute d \<and> minute d < 60 \<and>
      0 \<le> second d \<and> second d < 60 \<and>
      0 \<le> microsecond d \<and> microsecond d < 1000000)"

text \<open>A \<open>timedelta\<close> in its normal form: days, seconds in \<open>[0, 86400)\<close>, microseconds
  in \<open>[0, 10^6)\<close>.\<close>

record tdelta =
  days :: int
  seconds :: int
  microseconds :: int

definition td_normalize :: "int \<Rightarrow> int \<Rightarrow> int \<Rightarrow> tdelta" where
  "td_normalize d s us =
     (let s1 = s + us div 1000000
      in \<lparr>days = d + s1 div 86400, seconds = s1 mod 86400, microseconds = us mod 1000000\<rparr>)"

text \<open>\<open>timedelta(days=d, hours=h)\<close>.\<close>

definition timedelta :: "int \<Rightarrow> int \<Rightarrow> tdelta" where
  "timedelta d h = td_normalize d (h * 3600) 0"

text \<open>\<open>-delta\<close>.\<close>

definition td_neg :: "tdelta \<Rightarrow> tdelta" where
  "td_neg t = td_normalize (- days t) (- seconds t) (- microseconds t)"

text \<open>
  \<open>datetime + timedelta\<close>: the sum is normalised and the date must stay within
  \<open>[1, MAXORDINAL]\<close>, else \<open>OverflowError("date value out of range")\<close>.
\<close>

definition dt_add :: "datetime \<Rightarrow> tdelta \<Rightarrow> exn + datetime" where
  "dt_add self other =
     (let delta = td_normalize (ordinal self + days other)
                    (hour self * 3600 + minute self * 60 + second self + seconds other)
                    (microsecond self + microseconds other)
      in if 0 < days delta \<and> days delta \<le> MAXORDINAL
         then Inr \<lparr>ordinal = days delta,
                   hour = seconds delta div 3600,
                   minute = (seconds delta mod 3600) div 60,
                   second = (seconds delta mod 3600) mod 60,
                   microsecond = microseconds delta\<rparr>
         else Inl OverflowError)"

text \<open>\<open>datetime - timedelta\<close> is \<open>self + -other\<close>.\<close>

definition dt_sub :: "datetime \<Rightarrow> tdelta \<Rightarrow> exn + datetime" where
  "dt_sub self other = dt_add self (td_neg other)"

text \<open>\<open>datetime.weekday()\<close>: Monday is 0.\<close>

definition weekday :: "datetime \<Rightarrow> int" where
  "weekday d = (ordinal d + 6) mod 7"

text \<open>\<open>d.replace(hour=h, minute=m, second=s, microsecond=us)\<close>.\<close>

definition replace_time :: "datetime \<Rightarrow> int \<Rightarrow> int \<Rightarrow> int \<Rightarrow> int \<Rightarrow> datetime" where
  "replace_time d h m s us = d\<lparr>hour := h, minute := m, second := s, microsecond := us\<rparr>"

text \<open>Microseconds since the start of ordinal day 0: the position of a datetime on the
  time line, by which the database compares timestamps.\<close>

definition timestamp_us :: "datetime \<Rightarrow> int" where
  "timestamp_us d =
     ((ordinal d * 86400 + hour d * 3600 + minute d * 60 + second d) * 1000000
        + microsecond d)"

text \<open>Midnight (00:00:00.000000) of the day with ordinal \<open>n\<close>.\<close>

definition midnight :: "int \<Rightarrow> datetime" where
  "midnight n = \<lparr>ordinal = n, hour = 0, minute = 0, second = 0, microsecond = 0\<rparr>"

section \<open>The table and the query language\<close>

text \<open>
  \<open>class WeatherData(SQLModel, table=True)\<close>: one row of the only table. The primary key
  is \<open>None\<close> until the database assigns it.
\<close>

record WeatherData =
  row_id :: "int option"
  country :: string
  city :: string
  temperature :: real
  rain_presence :: bool
  weather_description :: string
  weather_data_date :: datetime

text \<open>A value in a result row or a comparison.\<close>

datatype sqlval =
    VNull
  | VInt int
  | VFloat real
  | VStr string
  | VBool bool
  | VDateTime datetime

datatype column =
    ColId
  | ColCountry
  | ColCity
  | ColTemperature
  | ColRainPresence
  | ColWeatherDescription
  | ColWeatherDataDate

text \<open>\<open>getattr(model, name)\<close> for the column attributes of \<open>WeatherData\<close>; any other
  name is taken to raise \<open>AttributeError\<close>.\<close>

definition getattr_model :: "string \<Rightarrow> exn + column" where
  "getattr_model name =
     (if name = ''id'' then Inr ColId
      else if name = ''country'' then Inr ColCountry
      else if name = ''city'' then Inr ColCity
      else if name = ''temperature'' then Inr ColTemperature
      else if name = ''rain_presence'' then Inr ColRainPresence
      else if name = ''weather_description'' then Inr ColWeatherDescription
      else if name = ''weather_data_date'' then Inr ColWeatherDataDate
      else Inl AttributeError)"

fun column_value :: "column \<Rightarrow> WeatherData \<Rightarrow> sqlval" where
  "column_value ColId r = (case row_id r of None \<Rightarrow> VNull | Some i \<Rightarrow> VInt i)"
| "column_value ColCountry r = VStr (country r)"
| "column_value ColCity r = VStr (city r)"
| "column_value ColTemperature r = VFloat (temperature r)"
| "column_value ColRainPresence r = VBool (rain_presence r)"
| "column_value ColWeatherDescription r = VStr (weather_description r)"
| "column_value ColWeatherDataDate r = VDateTime (weather_data_date r)"

text \<open>
  The expressions the code selects: a column, or \<open>func.max\<close>, \<open>func.min\<close>,
  \<open>func.stddev\<close> of a column, or \<open>func.count()\<close>. A selected expression carries the
  name given by \<open>.label(...)\<close>, if any.
\<close>

datatype expr =
    Column column
  | FuncMax column
  | FuncMin column
  | FuncStddev column
  | FuncCount

text \<open>The conditions the code builds: \<open>col >= v\<close>, \<open>col < v\<close>, \<open>col == v\<close>.\<close>

datatype cond =
    GreaterEq column sqlval
  | Less column sqlval
  | Equal column sqlval

text \<open>\<open>order_by(e)\<close> and \<open>order_by(e.desc())\<close>.\<close>

datatype ordering = Asc expr | Desc expr

record query =
  q_columns :: "(expr \<times> string option) list"
  q_where :: "cond list"
  q_group_by :: "column option"
  q_order_by :: "ordering option"

definition select :: "(expr \<times> string option) list \<Rightarrow> query" where
  "select cols = \<lparr>q_columns = cols, q_where = [], q_group_by = None, q_order_by = None\<rparr>"

definition where_clause :: "query \<Rightarrow> cond list \<Rightarrow> query" where
  "where_clause q cs = q\<lparr>q_where := q_where q @ cs\<rparr>"

definition group_by :: "query \<Rightarrow> column \<Rightarrow> query" where
  "group_by q c = q\<lparr>q_group_by := Some c\<rparr>"

definition order_by :: "query \<Rightarrow> ordering \<Rightarrow> query" where
  "order_by q ob = q\<lparr>q_order_by := Some ob\<rparr>"

subsection \<open>What the database engine computes\<close>

text \<open>
  Comparison of two values of the same type; a comparison with \<open>NULL\<close> or across types
  is not true. Timestamps compare by their position on the time line. Strings are not
  ordered here: their collation belongs to the engine, and none of the queries orders
  strings.
\<close>

fun sql_less :: "sqlval \<Rightarrow> sqlval \<Rightarrow> bool" where
  "sql_less (VInt a) (VInt b) = (a < b)"
| "sql_less (VFloat a) (VFloat b) = (a < b)"
| "sql_less (VBool a) (VBool b) = (\<not> a \<and> b)"
| "sql_less (VDateTime a) (VDateTime b) = (timestamp_us a < timestamp_us b)"
| "sql_less _ _ = False"

fun sql_le :: "sqlval \<Rightarrow> sqlval \<Rightarrow> bool" where
  "sql_le (VInt a) (VInt b) = (a \<le> b)"
| "sql_le (VFloat a) (VFloat b) = (a \<le> b)"
| "sql_le (VBool a) (VBool b) = (a \<longrightarrow> b)"
| "sql_le (VDateTime a) (VDateTime b) = (timestamp_us a \<le> timestamp_us b)"
| "sql_le _ _ = False"

fun cond_holds :: "cond \<Rightarrow> WeatherData \<Rightarrow> bool" where
  "cond_holds (GreaterEq c v) r = sql_le v (column_value c r)"
| "cond_holds (Less c v) r = sql_less (column_value c r) v"
| "cond_holds (Equal c v) r = (v \<noteq> VNull \<and> column_value c r = v)"

text \<open>\<open>max\<close> and \<open>min\<close> over the values of a group: \<open>NULL\<close> for an empty group.\<close>

definition agg_max :: "sqlval list \<Rightarrow> sqlval" where
  "agg_max vs =
     (case vs of [] \<Rightarrow> VNull
      | v # rest \<Rightarrow> foldl (\<lambda>a b. if sql_less a b then b else a) v rest)"

definition agg_min :: "sqlval list \<Rightarrow> sqlval" where
  "agg_min vs =
     (case vs of [] \<Rightarrow> VNull
      | v # rest \<Rightarrow> foldl (\<lambda>a b. if sql_less b a then b else a) v rest)"

fun float_of :: "sqlval \<Rightarrow> real list" where
  "float_of (VFloat x) = [x]"
| "float_of _ = []"

text \<open>
  The value of a selected expression on one group of rows. The engine's \<open>stddev\<close>
  aggregate is a parameter \<open>sd\<close>, applied to the floating-point values of the group:
  which standard deviation it is (sample or population) depends on the engine.
\<close>

fun eval_expr :: "(real list \<Rightarrow> sqlval) \<Rightarrow> expr \<Rightarrow> WeatherData list \<Rightarrow> sqlval" where
  "eval_expr sd (Column c) g = (case g of [] \<Rightarrow> VNull | r # _ \<Rightarrow> column_value c r)"
| "eval_expr sd (FuncMax c) g = agg_max (map (column_value c) g)"
| "eval_expr sd (FuncMin c) g = agg_min (map (column_value c) g)"
| "eval_expr sd (FuncStddev c) g = sd (concat (map (\<lambda>r. float_of (column_value c r)) g))"
| "eval_expr sd FuncCount g = VInt (int (length g))"

fun is_aggregate :: "expr \<Rightarrow> bool" where
  "is_aggregate (Column c) = False"
| "is_aggregate _ = True"

text \<open>
  The groups of the rows that passed the \<open>WHERE\<close> clause: with \<open>GROUP BY c\<close>, one
  group per distinct value of \<open>c\<close>; without it, a single group when an aggregate is
  selected (also when no row passed), else every row by itself.
\<close>

definition groups :: "query \<Rightarrow> WeatherData list \<Rightarrow> WeatherData list list" where
  "groups q rs =
     (case q_group_by q of
        Some c \<Rightarrow>
          map (\<lambda>k. filter (\<lambda>r. column_value c r = k) rs) (remdups (map (column_value c) rs))
      | None \<Rightarrow>
          if list_ex (\<lambda>(e, l). is_aggregate e) (q_columns q) then [rs]
          else map (\<lambda>r. [r]) rs)"

fun insert_by :: "('a \<Rightarrow> 'a \<Rightarrow> bool) \<Rightarrow> 'a \<Rightarrow> 'a list \<Rightarrow> 'a list" where
  "insert_by le x [] = [x]"
| "insert_by le x (y # ys) = (if le x y then x # y # ys else y # insert_by le x ys)"

definition sort_by :: "('a \<Rightarrow> 'a \<Rightarrow> bool) \<Rightarrow> 'a list \<Rightarrow> 'a list" where
  "sort_by le xs = foldr (insert_by le) xs []"

definition ordered :: "(real list \<Rightarrow> sqlval) \<Rightarrow> query \<Rightarrow> WeatherData list list
    \<Rightarrow> WeatherData list list" where
  "ordered sd q gs =
     (case q_order_by q of
        None \<Rightarrow> gs
      | Some (Asc e) \<Rightarrow> sort_by (\<lambda>g h. sql_le (eval_expr sd e g) (eval_expr sd e h)) gs
      | Some (Desc e) \<Rightarrow> sort_by (\<lambda>g h. sql_le (eval_expr sd e h) (eval_expr sd e g)) gs)"

text \<open>The result rows of a query on a table.\<close>

definition execute :: "(real list \<Rightarrow> sqlval) \<Rightarrow> query \<Rightarrow> WeatherData list \<Rightarrow> sqlval list list" where
  "execute sd q rs =
     map (\<lambda>g. map (\<lambda>(e, l). eval_expr sd e g) (q_columns q))
       (ordered sd q (groups q (filter (\<lambda>r. list_all (\<lambda>c. cond_holds c r) (q_where q)) rs)))"

text \<open>\<open>.first()\<close>: the first result row or \<open>None\<close>.\<close>

definition first_row :: "'a list \<Rightarrow> 'a option" where
  "first_row res = (case res of [] \<Rightarrow> None | r # _ \<Rightarrow> Some r)"

text \<open>\<open>.one()\<close> on a single-column result: exactly one row, returned as its scalar.\<close>

definition scalar_one :: "sqlval list list \<Rightarrow> exn + sqlval" where
  "scalar_one res =
     (case res of
        [] \<Rightarrow> Inl NoResultFound
      | [r] \<Rightarrow> (case r of [] \<Rightarrow> Inl NoResultFound | v # _ \<Rightarrow> Inr v)
      | _ \<Rightarrow> Inl MultipleResultsFound)"

section \<open>Program state and environment\<close>

text \<open>What is passed to \<open>logging.info\<close>: a result row, \<open>None\<close>, or a scalar.\<close>

datatype logged = LRow "sqlval list" | LNone | LScalar sqlval

text \<open>A log record: \<open>logging.info(obj)\<close>, or \<open>logging.error\<close> with the fixed part of
  its message and the exception formatted into it, if any.\<close>

datatype log_entry = LogInfo logged | LogError string "exn option"

text \<open>A call of a method of the session in \<open>add_record\<close>.\<close>

datatype session_call =
    CallAdd WeatherData
  | CallCommit
  | CallRefresh WeatherData
  | CallRollback

text \<open>
  The state that the code changes: the committed rows of the table and the next primary
  key, the log, the URLs requested over HTTP, the queries sent to the database, and the
  calls made on the session of \<open>add_record\<close>, in their order.
\<close>

record state =
  table :: "WeatherData list"
  next_id :: int
  logs :: "log_entry list"
  http_trace :: "string list"
  sql_trace :: "query list"
  session_trace :: "session_call list"

text \<open>
  What the reporting code reads from outside: the clock (\<open>datetime.now()\<close>), the line
  that \<open>input()\<close> returns (or the exception it raises, \<open>EOFError\<close> at end of input),
  the library function \<open>datetime.strptime\<close>, the engine's \<open>stddev\<close> aggregate, and
  what \<open>create_engine(database_url)\<close> raises, if anything.
\<close>

record env =
  clock :: datetime
  stdin :: "exn + string"
  strptime :: "string \<Rightarrow> string \<Rightarrow> exn + datetime"
  stddev :: "real list \<Rightarrow> sqlval"
  engine_error :: "exn option"

text \<open>\<open>str(x)\<close> of an optional string, as an f-string formats it.\<close>

definition py_str :: "string option \<Rightarrow> string" where
  "py_str x = (case x of None \<Rightarrow> ''None'' | Some s \<Rightarrow> s)"

section \<open>\<open>db_utils.py\<close>: date windows\<close>

definition date_range :: "datetime \<Rightarrow> int \<Rightarrow> int \<Rightarrow> exn + (datetime \<times> datetime)" where
  "date_range start_date d h =
     (case dt_add start_date (timedelta d h) of
        Inl e \<Rightarrow> Inl e
      | Inr end_date \<Rightarrow> Inr (start_date, end_date))"

definition parse_date_filter :: "env \<Rightarrow> string \<Rightarrow> exn + (datetime \<times> datetime)" where
  "parse_date_filter ev date_filter =
     (let now = clock ev in
      if date_filter = ''selected_hour'' then
        (case stdin ev of
           Inl e \<Rightarrow> Inl e
         | Inr timestamp_str \<Rightarrow>
             (case strptime ev timestamp_str ''%Y-%m-%d %H'' of
                Inl e \<Rightarrow> Inl e
              | Inr start_date \<Rightarrow> date_range start_date 0 1))
      else if date_filter = ''today'' then
        date_range (replace_time now 0 0 0 0) 1 0
      else if date_filter = ''yesterday'' then
        (case dt_sub now (timedelta 1 0) of
           Inl e \<Rightarrow> Inl e
         | Inr d \<Rightarrow> date_range (replace_time d 0 0 0 0) 1 0)
      else if date_filter = ''current_week'' then
        (case dt_sub now (timedelta (weekday now) 0) of
           Inl e \<Rightarrow> Inl e
         | Inr d \<Rightarrow> date_range (replace_time d 0 0 0 0) 7 0)
      else if date_filter = ''last_seven_days'' then
        (case dt_add now (timedelta 1 0) of
           Inl e \<Rightarrow> Inl e
         | Inr d \<Rightarrow>
             (let end_date = replace_time d 0 0 0 0 in
              case dt_sub end_date (timedelta 7 0) of
                Inl e \<Rightarrow> Inl e
              | Inr s \<Rightarrow> date_range s 7 0))
      else Inl ValueError)"


section \<open>\<open>db_utils.py\<close>: \<open>DatabaseManager\<close>\<close>

text \<open>\<open>session.exec(query)\<close>: the query is sent to the database and evaluated on the
  committed rows.\<close>

definition session_exec :: "env \<Rightarrow> query \<Rightarrow> state \<Rightarrow> sqlval list list \<times> state" where
  "session_exec ev q st =
     (execute (stddev ev) q (table st), st\<lparr>sql_trace := sql_trace st @ [q]\<rparr>)"

definition query_stats ::
    "env \<Rightarrow> string \<Rightarrow> string \<Rightarrow> state \<Rightarrow> (exn + sqlval list list) \<times> state" where
  "query_stats ev group_by_field date_filter st =
     (case parse_date_filter ev date_filter of
        Inl e \<Rightarrow> (Inl e, st)
      | Inr (start_date, end_date) \<Rightarrow>
          (case getattr_model group_by_field of
             Inl e \<Rightarrow> (Inl e, st)
           | Inr group_by_column \<Rightarrow>
               (let q = group_by
                          (where_clause
                             (select [(Column group_by_column, None),
                                      (FuncMax ColTemperature, Some ''max_temp''),
                                      (FuncMin ColTemperature, Some ''min_temp''),
                                      (FuncStddev ColTemperature, Some ''stddev_temp'')])
                             [GreaterEq ColWeatherDataDate (VDateTime start_date),
                              Less ColWeatherDataDate (VDateTime end_date)])
                          group_by_column;
                    (result, st') = session_exec ev q st
                in (Inr result, st'))))"

definition get_cities_stats ::
    "env \<Rightarrow> string \<Rightarrow> state \<Rightarrow> (exn + sqlval list list) \<times> state" where
  "get_cities_stats ev date_filter st = query_stats ev ''city'' date_filter st"

definition get_countries_stats ::
    "env \<Rightarrow> string \<Rightarrow> state \<Rightarrow> (exn + sqlval list list) \<times> state" where
  "get_countries_stats ev date_filter st = query_stats ev ''country'' date_filter st"

text \<open>\<open>temp_extreme\<close> is a string, or \<open>None\<close> when \<open>fetch_weather_stats\<close> passes its
  default on.\<close>

definition get_temperature_extremes ::
    "env \<Rightarrow> string \<Rightarrow> string option \<Rightarrow> state \<Rightarrow> (exn + sqlval list option) \<times> state" where
  "get_temperature_extremes ev date_filter temp_extreme st =
     (case parse_date_filter ev date_filter of
        Inl e \<Rightarrow> (Inl e, st)
      | Inr (start_date, end_date) \<Rightarrow>
          (let temp_column = ColTemperature;
               temp_func = (if temp_extreme = Some ''max'' then FuncMax temp_column
                            else FuncMin temp_column);
               q = order_by
                     (group_by
                        (where_clause
                           (select [(Column ColCity, None),
                                    (temp_func, Some (py_str temp_extreme @ ''_temp''))])
                           [GreaterEq ColWeatherDataDate (VDateTime start_date),
                            Less ColWeatherDataDate (VDateTime end_date)])
                        ColCity)
                     (if temp_extreme = Some ''max'' then Desc temp_func else Asc temp_func);
               (result, st') = session_exec ev q st
           in (Inr (first_row result), st')))"

definition count_rain_hours :: "env \<Rightarrow> string \<Rightarrow> state \<Rightarrow> (exn + sqlval) \<times> state" where
  "count_rain_hours ev date_filter st =
     (case parse_date_filter ev date_filter of
        Inl e \<Rightarrow> (Inl e, st)
      | Inr (start_date, end_date) \<Rightarrow>
          (let q = where_clause
                     (select [(FuncCount, Some ''rain_presence'')])
                     [GreaterEq ColWeatherDataDate (VDateTime start_date),
                      Less ColWeatherDataDate (VDateTime end_date),
                      Equal ColRainPresence (VBool True)];
               (result, st') = session_exec ev q st
           in (scalar_one result, st')))"

section \<open>\<open>main.py\<close>\<close>

definition logging_info :: "logged \<Rightarrow> state \<Rightarrow> state" where
  "logging_info x st = st\<lparr>logs := logs st @ [LogInfo x]\<rparr>"

definition logging_error :: "string \<Rightarrow> exn option \<Rightarrow> state \<Rightarrow> state" where
  "logging_error msg e st = st\<lparr>logs := logs st @ [LogError msg e]\<rparr>"

definition fetch_weather_stats ::
    "env \<Rightarrow> string \<Rightarrow> string \<Rightarrow> string option \<Rightarrow> state \<Rightarrow> (exn + unit) \<times> state" where
  "fetch_weather_stats ev data_type date_filter temp_extreme st =
     (case engine_error ev of
        Some e \<Rightarrow> (Inl e, st)
      | None \<Rightarrow>
          if data_type = ''countries'' then
            (case get_countries_stats ev date_filter st of
               (Inl e, st') \<Rightarrow> (Inl e, st')
             | (Inr stats, st') \<Rightarrow> (Inr (), fold (\<lambda>stat. logging_info (LRow stat)) stats st'))
          else if data_type = ''cities'' then
            (case get_cities_stats ev date_filter st of
               (Inl e, st') \<Rightarrow> (Inl e, st')
             | (Inr stats, st') \<Rightarrow> (Inr (), fold (\<lambda>stat. logging_info (LRow stat)) stats st'))
          else if data_type = ''extremes'' then
            (case get_temperature_extremes ev date_filter temp_extreme st of
               (Inl e, st') \<Rightarrow> (Inl e, st')
             | (Inr extremes, st') \<Rightarrow>
                 (Inr (), logging_info (case extremes of None \<Rightarrow> LNone | Some r \<Rightarrow> LRow r) st'))
          else if data_type = ''rain'' then
            (case count_rain_hours ev date_filter st of
               (Inl e, st') \<Rightarrow> (Inl e, st')
             | (Inr counted_rain, st') \<Rightarrow> (Inr (), logging_info (LScalar counted_rain) st'))
          else (Inr (), logging_error ''Invalid data type specified.'' None st))"

section \<open>\<open>aws/aws_lambda.py\<close>\<close>

subsection \<open>JSON values and the Python operations applied to them\<close>

datatype json =
    JNull
  | JBool bool
  | JInt int
  | JFloat real
  | JStr string
  | JArr "json list"
  | JObj "(string \<times> json) list"

text \<open>\<open>x[key]\<close> with a string key: only a dictionary can be indexed so.\<close>

fun py_getitem :: "json \<Rightarrow> string \<Rightarrow> exn + json" where
  "py_getitem (JObj kvs) key = (case map_of kvs key of None \<Rightarrow> Inl KeyError | Some v \<Rightarrow> Inr v)"
| "py_getitem _ key = Inl TypeError"

text \<open>\<open>x[0]\<close>: the first element of a list or string; a dictionary from JSON has no
  key \<open>0\<close>.\<close>

fun py_getitem0 :: "json \<Rightarrow> exn + json" where
  "py_getitem0 (JArr xs) = (case xs of [] \<Rightarrow> Inl IndexError | x # _ \<Rightarrow> Inr x)"
| "py_getitem0 (JStr s) = (case s of [] \<Rightarrow> Inl IndexError | c # _ \<Rightarrow> Inr (JStr [c]))"
| "py_getitem0 (JObj kvs) = Inl KeyError"
| "py_getitem0 _ = Inl TypeError"

text \<open>\<open>x.get(key, default)\<close>: a method of dictionaries only.\<close>

fun py_get :: "json \<Rightarrow> string \<Rightarrow> json \<Rightarrow> exn + json" where
  "py_get (JObj kvs) key dflt = (case map_of kvs key of None \<Rightarrow> Inr dflt | Some v \<Rightarrow> Inr v)"
| "py_get _ key dflt = Inl AttributeError"

text \<open>\<open>x > 0\<close>.\<close>

fun py_gt_zero :: "json \<Rightarrow> exn + bool" where
  "py_gt_zero (JInt n) = Inr (n > 0)"
| "py_gt_zero (JFloat x) = Inr (x > 0)"
| "py_gt_zero (JBool b) = Inr b"
| "py_gt_zero _ = Inl TypeError"

subsection \<open>The outside world of the ingestion function\<close>

text \<open>An HTTP response: its status code and what \<open>response.json()\<close> returns or raises.\<close>

record response =
  status_code :: int
  json_result :: "exn + json"

text \<open>The dictionary that \<open>get_weather\<close> returns, one field per key.\<close>

record weather_dict =
  d_country :: json
  d_city :: string
  d_temperature :: json
  d_rain_presence :: bool
  d_weather_description :: json
  d_weather_data_date :: datetime

text \<open>
  What the ingestion code calls outside itself: \<open>requests.get(url)\<close>,
  \<open>datetime.utcfromtimestamp\<close>, the construction \<open>WeatherData(**data)\<close> with its
  schema validation, the four session operations of \<open>add_record\<close> (each gives the
  exception it raises for a record, if any), \<open>create_engine\<close> and
  \<open>create_all\<close>, and the API key of the environment.
\<close>

record world =
  requests_get :: "string \<Rightarrow> exn + response"
  utcfromtimestamp :: "json \<Rightarrow> exn + datetime"
  validate :: "weather_dict \<Rightarrow> exn + WeatherData"
  session_add :: "WeatherData \<Rightarrow> exn option"
  session_commit :: "WeatherData \<Rightarrow> exn option"
  session_refresh :: "WeatherData \<Rightarrow> exn option"
  session_rollback :: "WeatherData \<Rightarrow> exn option"
  create_engine :: "exn option"
  create_tables :: "exn option"
  env_api_key :: "string option"

definition bind_exn :: "exn + 'a \<Rightarrow> ('a \<Rightarrow> exn + 'b) \<Rightarrow> exn + 'b" where
  "bind_exn m f = (case m of Inl e \<Rightarrow> Inl e | Inr x \<Rightarrow> f x)"

subsection \<open>\<open>WeatherAPI\<close>\<close>

record WeatherAPI =
  api_key :: "string option"
  base_url :: string

definition WeatherAPI_init :: "string option \<Rightarrow> WeatherAPI" where
  "WeatherAPI_init k = \<lparr>api_key = k, base_url = ''http://api.openweathermap.org/data/2.5/weather?''\<rparr>"

definition complete_url :: "WeatherAPI \<Rightarrow> string \<Rightarrow> string" where
  "complete_url api c = base_url api @ ''q='' @ c @ ''&appid='' @ py_str (api_key api) @ ''&units=metric''"

text \<open>The body of the branch \<open>response.status_code == 200\<close>.\<close>

definition weather_of_response :: "world \<Rightarrow> string \<Rightarrow> response \<Rightarrow> exn + weather_dict" where
  "weather_of_response w c resp =
     bind_exn (json_result resp) (\<lambda>data.
     bind_exn (py_getitem data ''main'') (\<lambda>main.
     bind_exn (py_getitem main ''temp'') (\<lambda>temperature.
     bind_exn (py_getitem data ''weather'') (\<lambda>weather.
     bind_exn (py_getitem0 weather) (\<lambda>weather0.
     bind_exn (py_getitem weather0 ''description'') (\<lambda>weather_description.
     bind_exn (py_get data ''rain'' (JObj [])) (\<lambda>rain_data.
     bind_exn (py_get rain_data ''1h'' (JInt 0)) (\<lambda>rain_last_hour.
     bind_exn (py_gt_zero rain_last_hour) (\<lambda>rain_presence.
     bind_exn (py_getitem data ''dt'') (\<lambda>timestamp.
     bind_exn (utcfromtimestamp w timestamp) (\<lambda>weather_data_date.
     bind_exn (py_getitem data ''sys'') (\<lambda>sys.
     bind_exn (py_getitem sys ''country'') (\<lambda>country.
       Inr \<lparr>d_country = country, d_city = c, d_temperature = temperature,
            d_rain_presence = rain_presence, d_weather_description = weather_description,
            d_weather_data_date = weather_data_date\<rparr>)))))))))))))"

text \<open>\<open>except requests.RequestException\<close> catches this exception only.\<close>

definition is_RequestException :: "exn \<Rightarrow> bool" where
  "is_RequestException e = (e = RequestException)"

definition get_weather ::
    "world \<Rightarrow> WeatherAPI \<Rightarrow> string \<Rightarrow> state \<Rightarrow> (exn + weather_dict option) \<times> state" where
  "get_weather w api c st =
     (let url = complete_url api c;
          st1 = st\<lparr>http_trace := http_trace st @ [url]\<rparr>;
          attempt = (case requests_get w url of
                       Inl e \<Rightarrow> Inl e
                     | Inr resp \<Rightarrow>
                         if status_code resp = 200
                         then (case weather_of_response w c resp of
                                 Inl e \<Rightarrow> Inl e
                               | Inr d \<Rightarrow> Inr (Some d, st1))
                         else Inr (None, logging_error ''Error in the HTTP request'' None st1))
      in case attempt of
           Inr (result, st2) \<Rightarrow> (Inr result, st2)
         | Inl e \<Rightarrow>
             if is_RequestException e
             then (Inr None,
                   logging_error ''An error occurred while making the request: '' (Some e) st1)
             else (Inl e, st1))"

subsection \<open>\<open>DatabaseManager.add_record\<close>\<close>

text \<open>
  A commit makes the row durable: it joins the table with its primary key, assigned
  from \<open>next_id\<close> when the record has none. Nothing else writes to the table, so a
  rollback leaves the committed rows as they are.
\<close>

definition committed :: "WeatherData \<Rightarrow> state \<Rightarrow> state" where
  "committed record st =
     (case row_id record of
        None \<Rightarrow> st\<lparr>table := table st @ [record\<lparr>row_id := Some (next_id st)\<rparr>],
                  next_id := next_id st + 1\<rparr>
      | Some i \<Rightarrow> st\<lparr>table := table st @ [record]\<rparr>)"

text \<open>A call on the session is recorded when it is made, whether it returns or raises.\<close>

definition session_call :: "session_call \<Rightarrow> state \<Rightarrow> state" where
  "session_call c st = st\<lparr>session_trace := session_trace st @ [c]\<rparr>"

text \<open>The handler \<open>except Exception as e\<close>: log, then \<open>session.rollback()\<close>, whose own
  exception is not caught.\<close>

definition add_record_handler :: "world \<Rightarrow> WeatherData \<Rightarrow> exn \<Rightarrow> state \<Rightarrow> (exn + unit) \<times> state" where
  "add_record_handler w record e st =
     (let st1 = logging_error ''Database error: '' (Some e) st;
          st2 = session_call CallRollback st1
      in case session_rollback w record of
           Some e' \<Rightarrow> (Inl e', st2)
         | None \<Rightarrow> (Inr (), st2))"

definition add_record :: "world \<Rightarrow> WeatherData \<Rightarrow> state \<Rightarrow> (exn + unit) \<times> state" where
  "add_record w record st =
     (let st0 = session_call (CallAdd record) st
      in case session_add w record of
           Some e \<Rightarrow> add_record_handler w record e st0
         | None \<Rightarrow>
             (let st1 = session_call CallCommit st0
              in case session_commit w record of
                   Some e \<Rightarrow> add_record_handler w record e st1
                 | None \<Rightarrow>
                     (let st2 = session_call (CallRefresh record) (committed record st1)
                      in case session_refresh w record of
                           Some e \<Rightarrow> add_record_handler w record e st2
                         | None \<Rightarrow> (Inr (), st2))))"

subsection \<open>The batch\<close>

definition fetch_and_store_weather ::
    "world \<Rightarrow> string \<Rightarrow> WeatherAPI \<Rightarrow> state \<Rightarrow> (exn + unit) \<times> state" where
  "fetch_and_store_weather w c api st =
     (case get_weather w api c st of
        (Inl e, st1) \<Rightarrow> (Inr (), logging_error (''Error processing '' @ c @ '': '') (Some e) st1)
      | (Inr None, st1) \<Rightarrow> (Inr (), st1)
      | (Inr (Some data), st1) \<Rightarrow>
          (let (r, st2) = (case validate w data of
                             Inl e \<Rightarrow> (Inl e, st1)
                           | Inr weather_record \<Rightarrow> add_record w weather_record st1)
           in case r of
                Inr u \<Rightarrow> (Inr (), st2)
              | Inl e \<Rightarrow>
                  if e = ValidationError
                  then (Inr (), logging_error (''Validation error for '' @ c @ '': '') (Some e) st2)
                  else (Inr (), logging_error (''Error processing '' @ c @ '': '') (Some e) st2)))"

definition cities :: "string list" where
  "cities =
     [''Istanbul'', ''London'', ''Saint Petersburg'', ''Berlin'', ''Madrid'', ''Kyiv'', ''Rome'',
      ''Bucharest'', ''Paris'', ''Minsk'', ''Vienna'', ''Warsaw'', ''Hamburg'', ''Budapest'',
      ''Belgrade'', ''Barcelona'', ''Munich'', ''Kharkiv'', ''Milan'']"

text \<open>
  \<open>executor.submit(fetch_and_store_weather, city, api, db)\<close> for each city, and the
  wait at the end of the \<open>with\<close> block. Each task is run to its end, one after the other
  in the order of submission; what a task returns or raises stays in its future, which
  nobody reads.
\<close>

fun submit_all :: "world \<Rightarrow> WeatherAPI \<Rightarrow> string list \<Rightarrow> state \<Rightarrow> state" where
  "submit_all w api [] st = st"
| "submit_all w api (c # cs) st = submit_all w api cs (snd (fetch_and_store_weather w c api st))"

record lambda_result =
  statusCode :: int
  body :: string

definition lambda_handler :: "world \<Rightarrow> state \<Rightarrow> lambda_result \<times> state" where
  "lambda_handler w st =
     (let failed = (\<lambda>e. (\<lparr>statusCode = 500, body = ''Internal server error''\<rparr>,
                          logging_error ''Lambda execution error: '' (Some e) st))
      in case create_engine w of
           Some e \<Rightarrow> failed e
         | None \<Rightarrow>
             (case create_tables w of
                Some e \<Rightarrow> failed e
              | None \<Rightarrow>
                  (let api = WeatherAPI_init (env_api_key w)
                   in (\<lparr>statusCode = 200, body = ''Weather data updated successfully''\<rparr>,
                       submit_all w api cities st))))"

section \<open>Vocabulary of the statements\<close>

text \<open>A row lies in the window from \<open>s\<close> to \<open>e\<close> when \<open>s \<le> weather_data_date < e\<close>.\<close>

definition in_window :: "datetime \<Rightarrow> datetime \<Rightarrow> WeatherData \<Rightarrow> bool" where
  "in_window s e r =
     (timestamp_us s \<le> timestamp_us (weather_data_date r) \<and>
      timestamp_us (weather_data_date r) < timestamp_us e)"

text \<open>The queries that the four reporting methods build, written out: the grouped
  statistics, the temperature extreme, and the count of rain hours.\<close>

definition stats_query :: "column \<Rightarrow> datetime \<Rightarrow> datetime \<Rightarrow> query" where
  "stats_query c s e =
     \<lparr>q_columns = [(Column c, None), (FuncMax ColTemperature, Some ''max_temp''),
                    (FuncMin ColTemperature, Some ''min_temp''),
                    (FuncStddev ColTemperature, Some ''stddev_temp'')],
      q_where = [GreaterEq ColWeatherDataDate (VDateTime s),
                 Less ColWeatherDataDate (VDateTime e)],
      q_group_by = Some c, q_order_by = None\<rparr>"

definition extremes_query :: "string option \<Rightarrow> datetime \<Rightarrow> datetime \<Rightarrow> query" where
  "extremes_query te s e =
     \<lparr>q_columns = [(Column ColCity, None),
                    (if te = Some ''max'' then FuncMax ColTemperature
                     else FuncMin ColTemperature, Some (py_str te @ ''_temp''))],
      q_where = [GreaterEq ColWeatherDataDate (VDateTime s),
                 Less ColWeatherDataDate (VDateTime e)],
      q_group_by = Some ColCity,
      q_order_by = Some (if te = Some ''max'' then Desc (FuncMax ColTemperature)
                         else Asc (FuncMin ColTemperature))\<rparr>"

definition rain_query :: "datetime \<Rightarrow> datetime \<Rightarrow> query" where
  "rain_query s e =
     \<lparr>q_columns = [(FuncCount, Some ''rain_presence'')],
      q_where = [GreaterEq ColWeatherDataDate (VDateTime s),
                 Less ColWeatherDataDate (VDateTime e),
                 Equal ColRainPresence (VBool True)],
      q_group_by = None, q_order_by = None\<rparr>"

text \<open>The row that a commit of \<open>record\<close> adds to the table in state \<open>st\<close>.\<close>

definition stored :: "WeatherData \<Rightarrow> state \<Rightarrow> WeatherData" where
  "stored record st =
     (case row_id record of None \<Rightarrow> record\<lparr>row_id := Some (next_id st)\<rparr> | Some i \<Rightarrow> record)"

section \<open>Example data\<close>

text \<open>The sample standard deviation, which PostgreSQL computes for \<open>stddev\<close>: \<open>NULL\<close>
  for fewer than two values.\<close>

definition stddev_samp :: "real list \<Rightarrow> sqlval" where
  "stddev_samp xs =
     (if length xs < 2 then VNull
      else VFloat (sqrt (sum_list (map (\<lambda>x. (x - sum_list xs / real (length xs))\<^sup>2) xs)
                          / real (length xs - 1))))"

text \<open>An environment: Wednesday 2024-03-06 13:45:10.25 on the clock (ordinal 738951), and
  the line \<open>2024-03-05 14\<close> on standard input.\<close>

definition demo_env :: env where
  "demo_env =
     \<lparr>clock = \<lparr>ordinal = 738951, hour = 13, minute = 45, second = 10, microsecond = 250000\<rparr>,
      stdin = Inr ''2024-03-05 14'',
      strptime = (\<lambda>s f. if s = ''2024-03-05 14'' \<and> f = ''%Y-%m-%d %H''
                          then Inr \<lparr>ordinal = 738950, hour = 14, minute = 0, second = 0,
                                    microsecond = 0\<rparr>
                          else Inl ValueError),
      stddev = stddev_samp,
      engine_error = None\<rparr>"

text \<open>A table of five observations: three of 2024-03-06, one of the day before, and one
  twelve days old.\<close>

definition demo_rows :: "WeatherData list" where
  "demo_rows =
     [\<lparr>row_id = Some 1, country = ''GB'', city = ''London'', temperature = 11,
       rain_presence = True, weather_description = ''light rain'',
       weather_data_date = \<lparr>ordinal = 738951, hour = 9, minute = 0, second = 0, microsecond = 0\<rparr>\<rparr>,
      \<lparr>row_id = Some 2, country = ''GB'', city = ''London'', temperature = 7,
       rain_presence = False, weather_description = ''clear sky'',
       weather_data_date = \<lparr>ordinal = 738951, hour = 3, minute = 0, second = 0, microsecond = 0\<rparr>\<rparr>,
      \<lparr>row_id = Some 3, country = ''DE'', city = ''Berlin'', temperature = 4,
       rain_presence = True, weather_description = ''moderate rain'',
       weather_data_date = \<lparr>ordinal = 738951, hour = 10, minute = 0, second = 0, microsecond = 0\<rparr>\<rparr>,
      \<lparr>row_id = Some 4, country = ''DE'', city = ''Munich'', temperature = - 2,
       rain_presence = False, weather_description = ''snow'',
       weather_data_date = \<lparr>ordinal = 738950, hour = 22, minute = 0, second = 0, microsecond = 0\<rparr>\<rparr>,
      \<lparr>row_id = Some 5, country = ''FR'', city = ''Paris'', temperature = 30,
       rain_presence = True, weather_description = ''thunderstorm'',
       weather_data_date = \<lparr>ordinal = 738940, hour = 12, minute = 0, second = 0, microsecond = 0\<rparr>\<rparr>]"

definition demo_state :: state where
  "demo_state =
     \<lparr>table = demo_rows, next_id = 6, logs = [], http_trace = [], sql_trace = [],
      session_trace = []\<rparr>"

text \<open>
  A world for the ingestion function. The provider answers 200 for London and Paris,
  200 with a temperature that is not a number for Madrid, 404 for Berlin, and the
  connection fails for every other city. The schema accepts a string, a float and a
  string for country, temperature and description. The database refuses the commit of a
  record of Paris.
\<close>

definition demo_api :: WeatherAPI where
  "demo_api = WeatherAPI_init (Some ''KEY'')"

definition demo_body :: "json \<Rightarrow> json" where
  "demo_body temp =
     JObj [(''main'', JObj [(''temp'', temp)]),
           (''weather'', JArr [JObj [(''description'', JStr ''light rain'')]]),
           (''rain'', JObj [(''1h'', JFloat (1 / 2))]),
           (''dt'', JInt 1709715600),
           (''sys'', JObj [(''country'', JStr ''GB'')])]"

definition demo_world :: world where
  "demo_world =
     \<lparr>requests_get = (\<lambda>url.
        if url = complete_url demo_api ''London''
          then Inr \<lparr>status_code = 200, json_result = Inr (demo_body (JFloat 11))\<rparr>
        else if url = complete_url demo_api ''Madrid''
          then Inr \<lparr>status_code = 200, json_result = Inr (demo_body (JStr ''warm''))\<rparr>
        else if url = complete_url demo_api ''Paris''
          then Inr \<lparr>status_code = 200, json_result = Inr (demo_body (JFloat 30))\<rparr>
        else if url = complete_url demo_api ''Berlin''
          then Inr \<lparr>status_code = 404, json_result = Inl RequestException\<rparr>
        else Inl RequestException),
      utcfromtimestamp = (\<lambda>ts.
        case ts of
          JInt n \<Rightarrow> Inr \<lparr>ordinal = 719163 + n div 86400, hour = (n mod 86400) div 3600,
                          minute = (n mod 3600) div 60, second = n mod 60, microsecond = 0\<rparr>
        | _ \<Rightarrow> Inl TypeError),
      validate = (\<lambda>d.
        case (d_country d, d_temperature d, d_weather_description d) of
          (JStr co, JFloat t, JStr de) \<Rightarrow>
            Inr \<lparr>row_id = None, country = co, city = d_city d, temperature = t,
                 rain_presence = d_rain_presence d, weather_description = de,
                 weather_data_date = d_weather_data_date d\<rparr>
        | _ \<Rightarrow> Inl ValidationError),
      session_add = (\<lambda>r. None),
      session_commit = (\<lambda>r. if city r = ''Paris'' then Some SQLAlchemyError else None),
      session_refresh = (\<lambda>r. None),
      session_rollback = (\<lambda>r. None),
      create_engine = None,
      create_tables = None,
      env_api_key = Some ''KEY''\<rparr>"

definition demo_record :: WeatherData where
  "demo_record =
     \<lparr>row_id = None, country = ''GB'', city = ''London'', temperature = 11,
      rain_presence = True, weather_description = ''light rain'',
      weather_data_date = \<lparr>ordinal = 738951, hour = 9, minute = 0, second = 0, microsecond = 0\<rparr>\<rparr>"

text \<open>Two more worlds: one where \<open>session.refresh\<close> raises, and one where the commit and
  then the rollback raise.\<close>

definition refresh_fails_world :: world where
  "refresh_fails_world = demo_world\<lparr>session_refresh := (\<lambda>r. Some SQLAlchemyError)\<rparr>"

definition rollback_fails_world :: world where
  "rollback_fails_world =
     demo_world\<lparr>session_commit := (\<lambda>r. Some SQLAlchemyError),
                 session_rollback := (\<lambda>r. Some OSError)\<rparr>"

section \<open>Date arithmetic\<close>

lemma hms_decompose:
  fixes h m s :: int
  assumes "0 \<le> m" "m < 60" "0 \<le> s" "s < 60"
  shows "(h * 3600 + m * 60 + s) div 3600 = h"
    and "((h * 3600 + m * 60 + s) mod 3600) div 60 = m"
    and "((h * 3600 + m * 60 + s) mod 3600) mod 60 = s"
proof -
  have r: "0 \<le> m * 60 + s" "m * 60 + s < 3600" using assms by auto
  have d: "(h * 3600 + (m * 60 + s)) div 3600 = h"
    using r by (simp add: div_pos_pos_trivial)
  have md: "(h * 3600 + (m * 60 + s)) mod 3600 = m * 60 + s"
    using r by (simp add: mod_pos_pos_trivial)
  show "(h * 3600 + m * 60 + s) div 3600 = h" using d by (simp add: add.assoc)
  have md': "(h * 3600 + m * 60 + s) mod 3600 = m * 60 + s" using md by (simp add: add.assoc)
  show "((h * 3600 + m * 60 + s) mod 3600) div 60 = m"
    unfolding md' using assms by (simp add: div_pos_pos_trivial)
  show "((h * 3600 + m * 60 + s) mod 3600) mod 60 = s"
    unfolding md' using assms by (simp add: mod_pos_pos_trivial)
qed

lemma dt_add_days:
  assumes "valid_datetime d"
  shows "dt_add d (timedelta k 0) =
     (if 0 < ordinal d + k \<and> ordinal d + k \<le> MAXORDINAL
      then Inr (d\<lparr>ordinal := ordinal d + k\<rparr>) else Inl OverflowError)"
proof -
  let ?S = "hour d * 3600 + minute d * 60 + second d"
  have v: "0 \<le> hour d" "hour d < 24" "0 \<le> minute d" "minute d < 60"
      "0 \<le> second d" "second d < 60" "0 \<le> microsecond d" "microsecond d < 1000000"
    using assms by (auto simp: valid_datetime_def)
  have S: "0 \<le> ?S" "?S < 86400" using v by auto
  have td: "timedelta k 0 = \<lparr>days = k, seconds = 0, microseconds = 0\<rparr>"
    by (simp add: timedelta_def td_normalize_def)
  have n: "td_normalize (ordinal d + k) ?S (microsecond d) =
      \<lparr>days = ordinal d + k, seconds = ?S, microseconds = microsecond d\<rparr>"
    using S v by (simp add: td_normalize_def div_pos_pos_trivial mod_pos_pos_trivial)
  show ?thesis
    using hms_decompose[OF v(3,4,5,6), of "hour d"]
    by (simp add: dt_add_def td n Let_def)
qed


lemma td_neg_days: "td_neg (timedelta k 0) = timedelta (- k) 0"
  by (simp add: td_neg_def timedelta_def td_normalize_def)

lemma dt_sub_days:
  assumes "valid_datetime d"
  shows "dt_sub d (timedelta k 0) =
     (if 0 < ordinal d - k \<and> ordinal d - k \<le> MAXORDINAL
      then Inr (d\<lparr>ordinal := ordinal d - k\<rparr>) else Inl OverflowError)"
  using dt_add_days[OF assms, of "- k"] by (simp add: dt_sub_def td_neg_days)


lemma hms_recompose:
  fixes r :: int
  shows "(r div 3600) * 3600 + ((r mod 3600) div 60) * 60 + (r mod 3600) mod 60 = r"
proof -
  have "((r mod 3600) div 60) * 60 + (r mod 3600) mod 60 = r mod 3600"
    by (rule div_mult_mod_eq)
  moreover have "(r div 3600) * 3600 + r mod 3600 = r"
    by (rule div_mult_mod_eq)
  ultimately show ?thesis by linarith
qed

lemma carry_recompose:
  fixes base s us :: int
  shows "(base * 86400 + (s + us div 1000000) div 86400 * 86400
            + (s + us div 1000000) mod 86400) * 1000000 + us mod 1000000
         = (base * 86400 + s) * 1000000 + us"
proof -
  have a: "(s + us div 1000000) div 86400 * 86400 + (s + us div 1000000) mod 86400
      = s + us div 1000000"
    by (rule div_mult_mod_eq)
  have b: "us div 1000000 * 1000000 + us mod 1000000 = us"
    by (rule div_mult_mod_eq)
  have "(base * 86400 + (s + us div 1000000) div 86400 * 86400
            + (s + us div 1000000) mod 86400) * 1000000 + us mod 1000000
      = (base * 86400 + (s + us div 1000000)) * 1000000 + us mod 1000000"
    using a by (simp add: add.assoc)
  also have "\<dots> = (base * 86400 + s) * 1000000 + (us div 1000000 * 1000000 + us mod 1000000)"
    by (simp add: algebra_simps)
  finally show ?thesis using b by simp
qed

lemma if_Inr_eq: "(if c then Inr x else Inl e) = Inr y \<Longrightarrow> y = x"
  by (simp split: if_splits)

lemma dt_add_Inr:
  assumes "dt_add d t = Inr d'"
  shows "d' = \<lparr>ordinal = days (td_normalize (ordinal d + days t)
                    (hour d * 3600 + minute d * 60 + second d + seconds t)
                    (microsecond d + microseconds t)),
              hour = seconds (td_normalize (ordinal d + days t)
                    (hour d * 3600 + minute d * 60 + second d + seconds t)
                    (microsecond d + microseconds t)) div 3600,
              minute = (seconds (td_normalize (ordinal d + days t)
                    (hour d * 3600 + minute d * 60 + second d + seconds t)
                    (microsecond d + microseconds t)) mod 3600) div 60,
              second = (seconds (td_normalize (ordinal d + days t)
                    (hour d * 3600 + minute d * 60 + second d + seconds t)
                    (microsecond d + microseconds t)) mod 3600) mod 60,
              microsecond = microseconds (td_normalize (ordinal d + days t)
                    (hour d * 3600 + minute d * 60 + second d + seconds t)
                    (microsecond d + microseconds t))\<rparr>"
  using assms unfolding dt_add_def Let_def by (rule if_Inr_eq)

lemma td_normalize_sel:
  "days (td_normalize a s us) = a + (s + us div 1000000) div 86400"
  "seconds (td_normalize a s us) = (s + us div 1000000) mod 86400"
  "microseconds (td_normalize a s us) = us mod 1000000"
  by (simp_all add: td_normalize_def Let_def)

lemma dt_add_timestamp:
  assumes "dt_add d t = Inr d'"
  shows "timestamp_us d' =
     timestamp_us d + (days t * 86400 + seconds t) * 1000000 + microseconds t"
proof -
  define us where "us = microsecond d + microseconds t"
  define s where "s = hour d * 3600 + minute d * 60 + second d + seconds t"
  define r where "r = (s + us div 1000000) mod 86400"
  define base where "base = ordinal d + days t"
  have d': "d' = \<lparr>ordinal = base + (s + us div 1000000) div 86400,
                hour = r div 3600, minute = (r mod 3600) div 60,
                second = (r mod 3600) mod 60, microsecond = us mod 1000000\<rparr>"
    unfolding us_def s_def r_def base_def
    using dt_add_Inr[OF assms] unfolding td_normalize_sel .
  have "timestamp_us d' =
      ((base + (s + us div 1000000) div 86400) * 86400
         + ((r div 3600) * 3600 + ((r mod 3600) div 60) * 60 + (r mod 3600) mod 60)) * 1000000
         + us mod 1000000"
    unfolding d' timestamp_us_def by (simp add: add.assoc)
  also have "\<dots> = (base * 86400 + (s + us div 1000000) div 86400 * 86400 + r) * 1000000
         + us mod 1000000"
    unfolding hms_recompose by (simp add: distrib_right)
  also have "\<dots> = (base * 86400 + s) * 1000000 + us"
    unfolding r_def by (rule carry_recompose)
  finally have "timestamp_us d' = (base * 86400 + s) * 1000000 + us" .
  also have "\<dots> = timestamp_us d + (days t * 86400 + seconds t) * 1000000 + microseconds t"
    unfolding us_def s_def base_def timestamp_us_def by (simp add: distrib_right)
  finally show ?thesis .
qed

lemma timedelta_total: "days (timedelta k h) * 86400 + seconds (timedelta k h) = k * 86400 + h * 3600"
proof -
  have "(h * 3600) div 86400 * 86400 + (h * 3600) mod 86400 = h * 3600"
    by (rule div_mult_mod_eq)
  then show ?thesis
    by (simp add: timedelta_def td_normalize_def Let_def distrib_right)
qed

lemma date_range_timestamp:
  assumes "date_range s k h = Inr (a, b)"
  shows "a = s \<and> timestamp_us b = timestamp_us s + (k * 86400 + h * 3600) * 1000000"
proof -
  have b: "dt_add s (timedelta k h) = Inr b" and a: "a = s"
    using assms by (auto simp: date_range_def split: sum.splits)
  have "microseconds (timedelta k h) = 0"
    by (simp add: timedelta_def td_normalize_def Let_def)
  then show ?thesis using dt_add_timestamp[OF b] a timedelta_total[of k h] by simp
qed


lemma replace_time_midnight: "replace_time d 0 0 0 0 = midnight (ordinal d)"
  by (simp add: replace_time_def midnight_def)

lemma valid_midnight: "1 \<le> n \<Longrightarrow> n \<le> MAXORDINAL \<Longrightarrow> valid_datetime (midnight n)"
  by (simp add: valid_datetime_def midnight_def)

lemma date_range_midnight:
  assumes "1 \<le> n" "n \<le> MAXORDINAL" "0 \<le> k"
  shows "date_range (midnight n) k 0 =
     (if n + k \<le> MAXORDINAL then Inr (midnight n, midnight (n + k)) else Inl OverflowError)"
  using dt_add_days[OF valid_midnight[OF assms(1,2)], of k] assms
  by (simp add: date_range_def midnight_def)

lemma parse_today:
  assumes "valid_datetime (clock ev)"
  shows "parse_date_filter ev ''today'' =
     (if ordinal (clock ev) < MAXORDINAL
      then Inr (midnight (ordinal (clock ev)), midnight (ordinal (clock ev) + 1))
      else Inl OverflowError)"
proof -
  have r: "1 \<le> ordinal (clock ev)" "ordinal (clock ev) \<le> MAXORDINAL"
    using assms by (auto simp: valid_datetime_def)
  show ?thesis
    using date_range_midnight[OF r, of 1]
    by (simp add: parse_date_filter_def replace_time_midnight)
qed

lemma parse_yesterday:
  assumes "valid_datetime (clock ev)"
  shows "parse_date_filter ev ''yesterday'' =
     (if 1 < ordinal (clock ev)
      then Inr (midnight (ordinal (clock ev) - 1), midnight (ordinal (clock ev)))
      else Inl OverflowError)"
proof -
  have r: "1 \<le> ordinal (clock ev)" "ordinal (clock ev) \<le> MAXORDINAL"
    using assms by (auto simp: valid_datetime_def)
  show ?thesis
  proof (cases "1 < ordinal (clock ev)")
    case True
    then have "date_range (midnight (ordinal (clock ev) - 1)) 1 0 =
        Inr (midnight (ordinal (clock ev) - 1), midnight (ordinal (clock ev)))"
      using date_range_midnight[of "ordinal (clock ev) - 1" 1] r by simp
    then show ?thesis
      using True r dt_sub_days[OF assms, of 1]
      by (simp add: parse_date_filter_def replace_time_midnight)
  next
    case False
    then show ?thesis
      using r dt_sub_days[OF assms, of 1]
      by (simp add: parse_date_filter_def)
  qed
qed

lemma weekday_range: "0 \<le> weekday d \<and> weekday d < 7"
  by (simp add: weekday_def)

lemma monday_le: "1 \<le> ordinal d \<Longrightarrow> 1 \<le> ordinal d - weekday d"
proof -
  assume "1 \<le> ordinal d"
  then have "(ordinal d + 6) mod 7 \<le> ordinal d - 1"
    by presburger
  then show ?thesis by (simp add: weekday_def)
qed

lemma parse_current_week:
  assumes "valid_datetime (clock ev)"
  shows "parse_date_filter ev ''current_week'' =
     (if ordinal (clock ev) - weekday (clock ev) + 7 \<le> MAXORDINAL
      then Inr (midnight (ordinal (clock ev) - weekday (clock ev)),
                midnight (ordinal (clock ev) - weekday (clock ev) + 7))
      else Inl OverflowError)"
proof -
  let ?n = "ordinal (clock ev)" and ?w = "weekday (clock ev)"
  have r: "1 \<le> ?n" "?n \<le> MAXORDINAL"
    using assms by (auto simp: valid_datetime_def)
  have m: "1 \<le> ?n - ?w" "?n - ?w \<le> MAXORDINAL"
    using monday_le[OF r(1)] weekday_range[of "clock ev"] r by auto
  have s: "dt_sub (clock ev) (timedelta ?w 0) = Inr ((clock ev)\<lparr>ordinal := ?n - ?w\<rparr>)"
    using dt_sub_days[OF assms, of ?w] m by simp
  show ?thesis
    using date_range_midnight[OF m, of 7]
    by (simp add: parse_date_filter_def s replace_time_midnight Let_def)
qed

lemma parse_last_seven_days:
  assumes "valid_datetime (clock ev)"
  shows "parse_date_filter ev ''last_seven_days'' =
     (if ordinal (clock ev) < MAXORDINAL \<and> 7 \<le> ordinal (clock ev)
      then Inr (midnight (ordinal (clock ev) - 6), midnight (ordinal (clock ev) + 1))
      else Inl OverflowError)"
proof -
  let ?n = "ordinal (clock ev)"
  have r: "1 \<le> ?n" "?n \<le> MAXORDINAL"
    using assms by (auto simp: valid_datetime_def)
  show ?thesis
  proof (cases "?n < MAXORDINAL")
    case False
    then show ?thesis
      using dt_add_days[OF assms, of 1] by (simp add: parse_date_filter_def)
  next
    case True
    then have a: "dt_add (clock ev) (timedelta 1 0) = Inr ((clock ev)\<lparr>ordinal := ?n + 1\<rparr>)"
      using dt_add_days[OF assms, of 1] r by simp
    have v: "valid_datetime (midnight (?n + 1))"
      using True r by (intro valid_midnight) auto
    have s: "dt_sub (midnight (?n + 1)) (timedelta 7 0) =
        (if 7 \<le> ?n then Inr (midnight (?n - 6)) else Inl OverflowError)"
      using dt_sub_days[OF v, of 7] r True by (auto simp: midnight_def)
    show ?thesis
    proof (cases "7 \<le> ?n")
      case False
      then show ?thesis
        using True by (simp add: parse_date_filter_def a replace_time_midnight s)
    next
      case seven: True
      have dr: "date_range (midnight (?n - 6)) 7 0 = Inr (midnight (?n - 6), midnight (?n + 1))"
      proof -
        have e: "?n - 6 + 7 = ?n + 1" by simp
        have "1 \<le> ?n - 6" "?n - 6 \<le> MAXORDINAL" "?n + 1 \<le> MAXORDINAL"
          using seven True r by auto
        then show ?thesis
          using date_range_midnight[of "?n - 6" 7] unfolding e by simp
      qed
      show ?thesis
        by (simp add: parse_date_filter_def a replace_time_midnight s dr True seven)
    qed
  qed
qed


lemma timedelta_hour: "timedelta 0 1 = \<lparr>days = 0, seconds = 3600, microseconds = 0\<rparr>"
  by (simp add: timedelta_def td_normalize_def)

lemma dt_add_hour:
  assumes "valid_datetime d"
  shows "dt_add d (timedelta 0 1) =
     (if hour d < 23 then Inr (d\<lparr>hour := hour d + 1\<rparr>)
      else if ordinal d < MAXORDINAL then Inr (d\<lparr>ordinal := ordinal d + 1, hour := 0\<rparr>)
      else Inl OverflowError)"
proof -
  have v: "0 \<le> hour d" "hour d < 24" "0 \<le> minute d" "minute d < 60"
      "0 \<le> second d" "second d < 60" "0 \<le> microsecond d" "microsecond d < 1000000"
      "1 \<le> ordinal d" "ordinal d \<le> MAXORDINAL"
    using assms by (auto simp: valid_datetime_def)
  define S where "S = hour d * 3600 + minute d * 60 + second d + 3600"
  have us: "microsecond d div 1000000 = 0" "microsecond d mod 1000000 = microsecond d"
    using v by (simp_all add: div_pos_pos_trivial mod_pos_pos_trivial)
  have n: "td_normalize (ordinal d + 0) S (microsecond d + 0) =
      \<lparr>days = ordinal d + S div 86400, seconds = S mod 86400, microseconds = microsecond d\<rparr>"
    by (simp add: td_normalize_def us)
  have unf: "dt_add d (timedelta 0 1) =
     (if 0 < ordinal d + S div 86400 \<and> ordinal d + S div 86400 \<le> MAXORDINAL
      then Inr \<lparr>ordinal = ordinal d + S div 86400, hour = (S mod 86400) div 3600,
                minute = ((S mod 86400) mod 3600) div 60,
                second = ((S mod 86400) mod 3600) mod 60,
                microsecond = microsecond d\<rparr>
      else Inl OverflowError)"
    using n unfolding dt_add_def timedelta_hour S_def by (simp add: Let_def)
  show ?thesis
  proof (cases "hour d < 23")
    case True
    have S': "S = (hour d + 1) * 3600 + minute d * 60 + second d"
      by (simp add: S_def distrib_right)
    have b: "0 \<le> S" "S < 86400" using True v unfolding S_def by auto
    have dm: "S div 86400 = 0" "S mod 86400 = S"
      using b by (simp_all add: div_pos_pos_trivial mod_pos_pos_trivial)
    show ?thesis
      unfolding unf dm using True v hms_decompose[OF v(3,4,5,6), of "hour d + 1"]
      unfolding S'[symmetric] by simp
  next
    case False
    then have h: "hour d = 23" using v by simp
    have S': "S = 1 * 86400 + (minute d * 60 + second d)"
      by (simp add: S_def h)
    have b: "0 \<le> minute d * 60 + second d" "minute d * 60 + second d < 86400"
      using v by auto
    have dm: "S div 86400 = 1" "S mod 86400 = 0 * 3600 + minute d * 60 + second d"
      unfolding S' using b by (simp_all add: div_pos_pos_trivial mod_pos_pos_trivial)
    show ?thesis
      unfolding unf dm using False v hms_decompose[OF v(3,4,5,6), of 0]
      by (simp add: h)
  qed
qed

lemma parse_selected_hour:
  assumes "stdin ev = Inr line" "strptime ev line ''%Y-%m-%d %H'' = Inr d" "valid_datetime d"
  shows "parse_date_filter ev ''selected_hour'' =
     (if hour d < 23 then Inr (d, d\<lparr>hour := hour d + 1\<rparr>)
      else if ordinal d < MAXORDINAL then Inr (d, d\<lparr>ordinal := ordinal d + 1, hour := 0\<rparr>)
      else Inl OverflowError)"
  by (simp add: parse_date_filter_def assms(1,2) date_range_def dt_add_hour[OF assms(3)])


lemma parse_date_filter_date_range:
  assumes "parse_date_filter ev f = Inr (s, e)"
  shows "\<exists>x. date_range x
           (if f = ''selected_hour'' then 0 else if f = ''today'' \<or> f = ''yesterday'' then 1 else 7)
           (if f = ''selected_hour'' then 1 else 0) = Inr (s, e)"
proof -
  consider "f = ''selected_hour''" | "f = ''today''" | "f = ''yesterday''"
    | "f = ''current_week''" | "f = ''last_seven_days''"
    using assms unfolding parse_date_filter_def Let_def by (auto split: if_splits)
  then show ?thesis
  proof cases
    case 1
    then show ?thesis using assms unfolding parse_date_filter_def Let_def
      by (auto split: sum.splits)
  next
    case 2
    then show ?thesis using assms unfolding parse_date_filter_def Let_def
      by (auto split: sum.splits)
  next
    case 3
    then show ?thesis using assms unfolding parse_date_filter_def Let_def
      by (auto split: sum.splits)
  next
    case 4
    then show ?thesis using assms unfolding parse_date_filter_def Let_def
      by (auto split: sum.splits)
  next
    case 5
    then show ?thesis using assms unfolding parse_date_filter_def Let_def
      by (auto split: sum.splits)
  qed
qed

lemma parse_date_filter_duration:
  assumes "parse_date_filter ev f = Inr (s, e)"
  shows "timestamp_us e = timestamp_us s +
     (if f = ''selected_hour'' then 3600
      else if f = ''today'' \<or> f = ''yesterday'' then 86400 else 604800) * 1000000"
proof -
  obtain x where x: "date_range x
           (if f = ''selected_hour'' then 0 else if f = ''today'' \<or> f = ''yesterday'' then 1 else 7)
           (if f = ''selected_hour'' then 1 else 0) = Inr (s, e)"
    using parse_date_filter_date_range[OF assms] by blast
  show ?thesis using date_range_timestamp[OF x] by (simp split: if_splits)
qed

lemma monday_start:
  "weekday (midnight (ordinal d - weekday d)) = 0"
proof -
  have "(ordinal d - (ordinal d + 6) mod 7 + 6) mod 7 = 0" by presburger
  then show ?thesis by (simp add: weekday_def midnight_def)
qed

section \<open>The named date filters\<close>

text \<open>
  Claim C1. With a valid clock, each of the five named filters gives the expected window,
  and the end is the start plus the named duration. \<open>today\<close>: midnight of the current
  day and midnight of the next. \<open>yesterday\<close>: midnight of the day before and midnight
  of the current day. \<open>current_week\<close>: midnight of the most recent Monday (the current
  day when it is a Monday) and midnight seven days later. \<open>last_seven_days\<close>: the
  coming midnight minus seven days, and the coming midnight. \<open>selected_hour\<close>: the
  datetime that \<open>strptime\<close> reads from the input line, and the same one hour later.
  A pair is returned whenever the dates involved stay within the range of \<open>datetime\<close>
  (ordinals 1 to \<open>MAXORDINAL\<close>); outside it the code raises \<open>OverflowError\<close> and returns
  no pair. Whatever pair is returned, its end is 3600, 86400 or 604800 seconds after its
  start.
\<close>

theorem parse_date_filter_named_windows:
  assumes "valid_datetime (clock ev)"
  shows
    "parse_date_filter ev ''today'' =
       (if ordinal (clock ev) < MAXORDINAL
        then Inr (midnight (ordinal (clock ev)), midnight (ordinal (clock ev) + 1))
        else Inl OverflowError)
     \<and> parse_date_filter ev ''yesterday'' =
       (if 1 < ordinal (clock ev)
        then Inr (midnight (ordinal (clock ev) - 1), midnight (ordinal (clock ev)))
        else Inl OverflowError)
     \<and> parse_date_filter ev ''current_week'' =
       (if ordinal (clock ev) - weekday (clock ev) + 7 \<le> MAXORDINAL
        then Inr (midnight (ordinal (clock ev) - weekday (clock ev)),
                  midnight (ordinal (clock ev) - weekday (clock ev) + 7))
        else Inl OverflowError)
     \<and> weekday (midnight (ordinal (clock ev) - weekday (clock ev))) = 0
     \<and> ordinal (clock ev) - weekday (clock ev) \<le> ordinal (clock ev)
     \<and> ordinal (clock ev) < ordinal (clock ev) - weekday (clock ev) + 7
     \<and> parse_date_filter ev ''last_seven_days'' =
       (if ordinal (clock ev) < MAXORDINAL \<and> 7 \<le> ordinal (clock ev)
        then Inr (midnight (ordinal (clock ev) + 1 - 7), midnight (ordinal (clock ev) + 1))
        else Inl OverflowError)
     \<and> (\<forall>line d. stdin ev = Inr line \<and> strptime ev line ''%Y-%m-%d %H'' = Inr d
            \<and> valid_datetime d \<longrightarrow>
          parse_date_filter ev ''selected_hour'' =
            (if hour d < 23 then Inr (d, d\<lparr>hour := hour d + 1\<rparr>)
             else if ordinal d < MAXORDINAL
               then Inr (d, d\<lparr>ordinal := ordinal d + 1, hour := 0\<rparr>)
             else Inl OverflowError))
     \<and> (\<forall>f s e. parse_date_filter ev f = Inr (s, e) \<longrightarrow>
          timestamp_us e = timestamp_us s +
            (if f = ''selected_hour'' then 3600
             else if f = ''today'' \<or> f = ''yesterday'' then 86400 else 604800) * 1000000)"
proof -
  have seven: "ordinal (clock ev) + 1 - 7 = ordinal (clock ev) - 6" by simp
  have wk: "ordinal (clock ev) - weekday (clock ev) \<le> ordinal (clock ev)"
      "ordinal (clock ev) < ordinal (clock ev) - weekday (clock ev) + 7"
    using weekday_range[of "clock ev"] by auto
  have sel: "\<forall>line d. stdin ev = Inr line \<and> strptime ev line ''%Y-%m-%d %H'' = Inr d
            \<and> valid_datetime d \<longrightarrow>
          parse_date_filter ev ''selected_hour'' =
            (if hour d < 23 then Inr (d, d\<lparr>hour := hour d + 1\<rparr>)
             else if ordinal d < MAXORDINAL
               then Inr (d, d\<lparr>ordinal := ordinal d + 1, hour := 0\<rparr>)
             else Inl OverflowError)"
    using parse_selected_hour by blast
  have dur: "\<forall>f s e. parse_date_filter ev f = Inr (s, e) \<longrightarrow>
          timestamp_us e = timestamp_us s +
            (if f = ''selected_hour'' then 3600
             else if f = ''today'' \<or> f = ''yesterday'' then 86400 else 604800) * 1000000"
    using parse_date_filter_duration by blast
  show ?thesis
    unfolding seven
    using parse_today[OF assms] parse_yesterday[OF assms] parse_current_week[OF assms]
      parse_last_seven_days[OF assms] monday_start[of "clock ev"] wk sel dur
    by (intro conjI)
qed

text \<open>The windows on Wednesday 2024-03-06, and the hour read from \<open>2024-03-05 14\<close>.\<close>

theorem parse_date_filter_named_windows_witness:
  "valid_datetime (clock demo_env)
   \<and> parse_date_filter demo_env ''today'' = Inr (midnight 738951, midnight 738952)
   \<and> parse_date_filter demo_env ''yesterday'' = Inr (midnight 738950, midnight 738951)
   \<and> parse_date_filter demo_env ''current_week'' = Inr (midnight 738949, midnight 738956)
   \<and> parse_date_filter demo_env ''last_seven_days'' = Inr (midnight 738945, midnight 738952)
   \<and> parse_date_filter demo_env ''selected_hour'' =
       Inr (\<lparr>ordinal = 738950, hour = 14, minute = 0, second = 0, microsecond = 0\<rparr>,
            \<lparr>ordinal = 738950, hour = 15, minute = 0, second = 0, microsecond = 0\<rparr>)
   \<and> timestamp_us (midnight 738952) = timestamp_us (midnight 738951) + 86400 * 1000000"
proof -
  have v: "valid_datetime (clock demo_env)"
    by (simp add: demo_env_def valid_datetime_def MAXORDINAL_def)
  note th = parse_date_filter_named_windows[OF v]
  have c: "ordinal (clock demo_env) = 738951" "weekday (clock demo_env) = 2"
    by (simp_all add: demo_env_def weekday_def)
  have t1: "parse_date_filter demo_env ''today'' = Inr (midnight 738951, midnight 738952)"
    using th unfolding c by (simp add: MAXORDINAL_def)
  have t2: "parse_date_filter demo_env ''yesterday'' = Inr (midnight 738950, midnight 738951)"
    using th unfolding c by (simp add: MAXORDINAL_def)
  have t3: "parse_date_filter demo_env ''current_week'' = Inr (midnight 738949, midnight 738956)"
    using th unfolding c by (simp add: MAXORDINAL_def)
  have t4: "parse_date_filter demo_env ''last_seven_days'' = Inr (midnight 738945, midnight 738952)"
    using th unfolding c by (simp add: MAXORDINAL_def)
  have vd: "stdin demo_env = Inr ''2024-03-05 14'' \<and>
      strptime demo_env ''2024-03-05 14'' ''%Y-%m-%d %H'' =
        Inr \<lparr>ordinal = 738950, hour = 14, minute = 0, second = 0, microsecond = 0\<rparr> \<and>
      valid_datetime \<lparr>ordinal = 738950, hour = 14, minute = 0, second = 0, microsecond = 0\<rparr>"
    by (simp add: demo_env_def valid_datetime_def MAXORDINAL_def)
  have t5: "parse_date_filter demo_env ''selected_hour'' =
       Inr (\<lparr>ordinal = 738950, hour = 14, minute = 0, second = 0, microsecond = 0\<rparr>,
            \<lparr>ordinal = 738950, hour = 15, minute = 0, second = 0, microsecond = 0\<rparr>)"
  proof -
    from th have "\<forall>line d. stdin demo_env = Inr line \<and>
            strptime demo_env line ''%Y-%m-%d %H'' = Inr d \<and> valid_datetime d \<longrightarrow>
          parse_date_filter demo_env ''selected_hour'' =
            (if hour d < 23 then Inr (d, d\<lparr>hour := hour d + 1\<rparr>)
             else if ordinal d < MAXORDINAL
               then Inr (d, d\<lparr>ordinal := ordinal d + 1, hour := 0\<rparr>)
             else Inl OverflowError)"
      by (elim conjE)
    then show ?thesis using vd by fastforce
  qed
  have t6: "timestamp_us (midnight 738952) = timestamp_us (midnight 738951) + 86400 * 1000000"
  proof -
    from th have "\<forall>f s e. parse_date_filter demo_env f = Inr (s, e) \<longrightarrow>
          timestamp_us e = timestamp_us s +
            (if f = ''selected_hour'' then 3600
             else if f = ''today'' \<or> f = ''yesterday'' then 86400 else 604800) * 1000000"
      by (elim conjE)
    then show ?thesis using t1 by fastforce
  qed
  show ?thesis using v t1 t2 t3 t4 t5 t6 by (intro conjI)
qed

section \<open>The reporting layer\<close>

lemma parse_invalid:
  assumes "f \<noteq> ''selected_hour''" "f \<noteq> ''today''" "f \<noteq> ''yesterday''"
    "f \<noteq> ''current_week''" "f \<noteq> ''last_seven_days''"
  shows "parse_date_filter ev f = Inl ValueError"
  using assms by (simp add: parse_date_filter_def)

text \<open>
  Claim C10. For every string that is none of the five named filters,
  \<open>parse_date_filter\<close> raises \<open>ValueError\<close>, and so do \<open>query_stats\<close>,
  \<open>get_temperature_extremes\<close> and \<open>count_rain_hours\<close>: each calls
  \<open>parse_date_filter\<close> first, so no query is sent and the state is unchanged.
\<close>

theorem unrecognized_filter_raises:
  assumes "f \<notin> {''selected_hour'', ''today'', ''yesterday'', ''current_week'', ''last_seven_days''}"
  shows "parse_date_filter ev f = Inl ValueError
    \<and> query_stats ev g f st = (Inl ValueError, st)
    \<and> get_temperature_extremes ev f te st = (Inl ValueError, st)
    \<and> count_rain_hours ev f st = (Inl ValueError, st)"
proof -
  have p: "parse_date_filter ev f = Inl ValueError"
    using assms by (intro parse_invalid) auto
  show ?thesis
    by (simp add: p query_stats_def get_temperature_extremes_def count_rain_hours_def)
qed

lemma count_rain_hours_result:
  assumes "parse_date_filter ev f = Inr (s, e)"
  shows "count_rain_hours ev f st =
     (Inr (VInt (int (length (filter (\<lambda>r. in_window s e r \<and> rain_presence r) (table st))))),
      st\<lparr>sql_trace := sql_trace st @
          [\<lparr>q_columns = [(FuncCount, Some ''rain_presence'')],
            q_where = [GreaterEq ColWeatherDataDate (VDateTime s),
                       Less ColWeatherDataDate (VDateTime e),
                       Equal ColRainPresence (VBool True)],
            q_group_by = None, q_order_by = None\<rparr>]\<rparr>)"
proof -
  let ?q = "where_clause (select [(FuncCount, Some ''rain_presence'')])
                     [GreaterEq ColWeatherDataDate (VDateTime s),
                      Less ColWeatherDataDate (VDateTime e),
                      Equal ColRainPresence (VBool True)]"
  have q: "?q = \<lparr>q_columns = [(FuncCount, Some ''rain_presence'')],
            q_where = [GreaterEq ColWeatherDataDate (VDateTime s),
                       Less ColWeatherDataDate (VDateTime e),
                       Equal ColRainPresence (VBool True)],
            q_group_by = None, q_order_by = None\<rparr>"
    by (simp add: select_def where_clause_def)
  have ex: "execute (stddev ev) ?q (table st) =
      [[VInt (int (length (filter (\<lambda>r. in_window s e r \<and> rain_presence r) (table st))))]]"
    unfolding q execute_def by (simp add: in_window_def groups_def ordered_def)
  show ?thesis
    unfolding count_rain_hours_def assms session_exec_def
    by (simp add: ex[unfolded q] scalar_one_def Let_def q)
qed

lemma foldl_max_float:
  "foldl (\<lambda>a b. if sql_less a b then b else a) (VFloat x) (map (\<lambda>r. VFloat (temperature r)) g)
   = VFloat (Max (insert x (temperature ` set g)))"
proof (induction g arbitrary: x)
  case Nil
  then show ?case by simp
next
  case (Cons r g)
  have m: "Max (insert (temperature r) (insert x (temperature ` set g)))
      = max (temperature r) (Max (insert x (temperature ` set g)))"
    by (rule Max_insert) auto
  have n: "Max (insert (max x (temperature r)) (temperature ` set g))
      = Max (insert (temperature r) (insert x (temperature ` set g)))"
  proof (cases "set g = {}")
    case True
    then show ?thesis by (simp add: max.commute)
  next
    case False
    then have ne: "temperature ` set g \<noteq> {}" by simp
    have f: "finite (temperature ` set g)" by simp
    show ?thesis
      using Max_insert[OF f ne] Max_insert[of "insert x (temperature ` set g)" "temperature r"]
      by (simp add: max.assoc max.commute max.left_commute)
  qed
  have step: "(if sql_less (VFloat x) (VFloat (temperature r)) then VFloat (temperature r)
               else VFloat x) = VFloat (max x (temperature r))"
    by (simp add: max_def)
  have "foldl (\<lambda>a b. if sql_less a b then b else a) (VFloat x)
          (map (\<lambda>r. VFloat (temperature r)) (r # g))
      = foldl (\<lambda>a b. if sql_less a b then b else a) (VFloat (max x (temperature r)))
          (map (\<lambda>r. VFloat (temperature r)) g)"
    unfolding list.map foldl_Cons step ..
  also have "\<dots> = VFloat (Max (insert (max x (temperature r)) (temperature ` set g)))"
    by (rule Cons.IH)
  also have "\<dots> = VFloat (Max (insert x (temperature ` set (r # g))))"
    unfolding n by (simp add: insert_commute)
  finally show ?case .
qed

lemma foldl_min_float:
  "foldl (\<lambda>a b. if sql_less b a then b else a) (VFloat x) (map (\<lambda>r. VFloat (temperature r)) g)
   = VFloat (Min (insert x (temperature ` set g)))"
proof (induction g arbitrary: x)
  case Nil
  then show ?case by simp
next
  case (Cons r g)
  have n: "Min (insert (min x (temperature r)) (temperature ` set g))
      = Min (insert (temperature r) (insert x (temperature ` set g)))"
  proof (cases "set g = {}")
    case True
    then show ?thesis by (simp add: min.commute)
  next
    case False
    then have ne: "temperature ` set g \<noteq> {}" by simp
    have f: "finite (temperature ` set g)" by simp
    show ?thesis
      using Min_insert[OF f ne] Min_insert[of "insert x (temperature ` set g)" "temperature r"]
      by (simp add: min.assoc min.commute min.left_commute)
  qed
  have step: "(if sql_less (VFloat (temperature r)) (VFloat x) then VFloat (temperature r)
               else VFloat x) = VFloat (min x (temperature r))"
    by (simp add: min_def)
  have "foldl (\<lambda>a b. if sql_less b a then b else a) (VFloat x)
          (map (\<lambda>r. VFloat (temperature r)) (r # g))
      = foldl (\<lambda>a b. if sql_less b a then b else a) (VFloat (min x (temperature r)))
          (map (\<lambda>r. VFloat (temperature r)) g)"
    unfolding list.map foldl_Cons step ..
  also have "\<dots> = VFloat (Min (insert (min x (temperature r)) (temperature ` set g)))"
    by (rule Cons.IH)
  also have "\<dots> = VFloat (Min (insert x (temperature ` set (r # g))))"
    unfolding n by (simp add: insert_commute)
  finally show ?case .
qed

lemma column_temperature: "column_value ColTemperature = (\<lambda>r. VFloat (temperature r))"
  by (rule ext) simp

lemma agg_max_temperature:
  assumes "g \<noteq> []"
  shows "agg_max (map (column_value ColTemperature) g) = VFloat (Max (temperature ` set g))"
proof -
  obtain r rest where g: "g = r # rest" using assms by (cases g) auto
  have "agg_max (map (column_value ColTemperature) g)
      = foldl (\<lambda>a b. if sql_less a b then b else a) (VFloat (temperature r))
          (map (\<lambda>r. VFloat (temperature r)) rest)"
    by (simp add: g agg_max_def column_temperature)
  then show ?thesis by (simp add: foldl_max_float g)
qed

lemma agg_min_temperature:
  assumes "g \<noteq> []"
  shows "agg_min (map (column_value ColTemperature) g) = VFloat (Min (temperature ` set g))"
proof -
  obtain r rest where g: "g = r # rest" using assms by (cases g) auto
  have "agg_min (map (column_value ColTemperature) g)
      = foldl (\<lambda>a b. if sql_less b a then b else a) (VFloat (temperature r))
          (map (\<lambda>r. VFloat (temperature r)) rest)"
    by (simp add: g agg_min_def column_temperature)
  then show ?thesis by (simp add: foldl_min_float g)
qed

lemma floats_temperature:
  "concat (map (\<lambda>r. float_of (column_value ColTemperature r)) g) = map temperature g"
  by (induction g) auto

lemma group_key:
  assumes "k \<in> set (map (column_value c) rs)"
  shows "(case filter (\<lambda>r. column_value c r = k) rs of [] \<Rightarrow> VNull | r # _ \<Rightarrow> column_value c r) = k"
proof -
  have ne: "filter (\<lambda>r. column_value c r = k) rs \<noteq> []"
    using assms by (auto simp: filter_empty_conv)
  then obtain r rest where f: "filter (\<lambda>r. column_value c r = k) rs = r # rest"
    by (cases "filter (\<lambda>r. column_value c r = k) rs") auto
  have "r \<in> set (filter (\<lambda>r. column_value c r = k) rs)" by (simp add: f)
  then have "column_value c r = k" by simp
  then show ?thesis by (simp add: f)
qed

lemma group_nonempty:
  assumes "k \<in> set (map (column_value c) rs)"
  shows "filter (\<lambda>r. column_value c r = k) rs \<noteq> []"
  using assms by (auto simp: filter_empty_conv)

lemma stats_query_shape:
  "group_by
     (where_clause
        (select [(Column c, None), (FuncMax ColTemperature, Some ''max_temp''),
                 (FuncMin ColTemperature, Some ''min_temp''),
                 (FuncStddev ColTemperature, Some ''stddev_temp'')])
        [GreaterEq ColWeatherDataDate (VDateTime s), Less ColWeatherDataDate (VDateTime e)])
     c
   = \<lparr>q_columns = [(Column c, None), (FuncMax ColTemperature, Some ''max_temp''),
                    (FuncMin ColTemperature, Some ''min_temp''),
                    (FuncStddev ColTemperature, Some ''stddev_temp'')],
      q_where = [GreaterEq ColWeatherDataDate (VDateTime s),
                 Less ColWeatherDataDate (VDateTime e)],
      q_group_by = Some c, q_order_by = None\<rparr>"
  by (simp add: select_def where_clause_def group_by_def)

lemma execute_stats:
  "execute sd
     \<lparr>q_columns = [(Column c, None), (FuncMax ColTemperature, Some ''max_temp''),
                    (FuncMin ColTemperature, Some ''min_temp''),
                    (FuncStddev ColTemperature, Some ''stddev_temp'')],
      q_where = [GreaterEq ColWeatherDataDate (VDateTime s),
                 Less ColWeatherDataDate (VDateTime e)],
      q_group_by = Some c, q_order_by = None\<rparr> rs
   = map (\<lambda>k. [k,
           VFloat (Max (temperature ` {r \<in> set rs. in_window s e r \<and> column_value c r = k})),
           VFloat (Min (temperature ` {r \<in> set rs. in_window s e r \<and> column_value c r = k})),
           sd (map temperature (filter (\<lambda>r. in_window s e r \<and> column_value c r = k) rs))])
       (remdups (map (column_value c) (filter (in_window s e) rs)))"
proof -
  let ?W = "filter (in_window s e) rs"
  let ?keys = "remdups (map (column_value c) ?W)"
  let ?grp = "\<lambda>k. filter (\<lambda>r. column_value c r = k) ?W"
  let ?row = "\<lambda>g. [case g of [] \<Rightarrow> VNull | r # _ \<Rightarrow> column_value c r,
                  agg_max (map (column_value ColTemperature) g),
                  agg_min (map (column_value ColTemperature) g),
                  sd (concat (map (\<lambda>r. float_of (column_value ColTemperature r)) g))]"
  have unf: "execute sd
     \<lparr>q_columns = [(Column c, None), (FuncMax ColTemperature, Some ''max_temp''),
                    (FuncMin ColTemperature, Some ''min_temp''),
                    (FuncStddev ColTemperature, Some ''stddev_temp'')],
      q_where = [GreaterEq ColWeatherDataDate (VDateTime s),
                 Less ColWeatherDataDate (VDateTime e)],
      q_group_by = Some c, q_order_by = None\<rparr> rs
     = map (\<lambda>k. ?row (?grp k)) ?keys"
    by (simp add: execute_def groups_def ordered_def comp_def in_window_def[abs_def])
  have grp: "?grp k = filter (\<lambda>r. in_window s e r \<and> column_value c r = k) rs" for k
    by simp
  have row: "?row (?grp k) = [k,
           VFloat (Max (temperature ` {r \<in> set rs. in_window s e r \<and> column_value c r = k})),
           VFloat (Min (temperature ` {r \<in> set rs. in_window s e r \<and> column_value c r = k})),
           sd (map temperature (filter (\<lambda>r. in_window s e r \<and> column_value c r = k) rs))]"
    if k: "k \<in> set ?keys" for k
  proof -
    have km: "k \<in> set (map (column_value c) ?W)" using k by simp
    have ne: "?grp k \<noteq> []" by (rule group_nonempty[OF km])
    have st: "set (?grp k) = {r \<in> set rs. in_window s e r \<and> column_value c r = k}"
      by auto
    show ?thesis
      unfolding group_key[OF km] agg_max_temperature[OF ne] agg_min_temperature[OF ne]
        floats_temperature st
      unfolding grp ..
  qed
  show ?thesis unfolding unf using row by (intro map_cong refl) 
qed

text \<open>
  Claim C2. When the date filter gives the window from \<open>s\<close> to \<open>e\<close> and the grouping
  field names a column, \<open>query_stats\<close> returns one row per distinct value of that column
  among the rows in the window: the value, the maximum and the minimum temperature of
  the rows of the window with that value, and the engine's standard deviation of their
  temperatures. \<open>get_cities_stats\<close> and \<open>get_countries_stats\<close> are this query for
  \<open>city\<close> and \<open>country\<close>.
\<close>

theorem query_stats_groups:
  assumes "parse_date_filter ev f = Inr (s, e)" and "getattr_model g = Inr c"
  shows "(\<exists>keys. distinct keys
      \<and> set keys = column_value c ` {r \<in> set (table st). in_window s e r}
      \<and> fst (query_stats ev g f st) =
          Inr (map (\<lambda>k. [k,
                 VFloat (Max (temperature `
                   {r \<in> set (table st). in_window s e r \<and> column_value c r = k})),
                 VFloat (Min (temperature `
                   {r \<in> set (table st). in_window s e r \<and> column_value c r = k})),
                 stddev ev (map temperature
                   (filter (\<lambda>r. in_window s e r \<and> column_value c r = k) (table st)))]) keys))
    \<and> get_cities_stats ev f st = query_stats ev ''city'' f st
    \<and> get_countries_stats ev f st = query_stats ev ''country'' f st"
proof -
  let ?keys = "remdups (map (column_value c) (filter (in_window s e) (table st)))"
  have d: "distinct ?keys" by simp
  have k: "set ?keys = column_value c ` {r \<in> set (table st). in_window s e r}"
    by auto
  have q: "fst (query_stats ev g f st) =
      Inr (execute (stddev ev)
        \<lparr>q_columns = [(Column c, None), (FuncMax ColTemperature, Some ''max_temp''),
                    (FuncMin ColTemperature, Some ''min_temp''),
                    (FuncStddev ColTemperature, Some ''stddev_temp'')],
          q_where = [GreaterEq ColWeatherDataDate (VDateTime s),
                 Less ColWeatherDataDate (VDateTime e)],
          q_group_by = Some c, q_order_by = None\<rparr> (table st))"
    unfolding query_stats_def assms stats_query_shape
    by (simp add: session_exec_def Let_def)
  have "distinct ?keys
      \<and> set ?keys = column_value c ` {r \<in> set (table st). in_window s e r}
      \<and> fst (query_stats ev g f st) =
          Inr (map (\<lambda>k. [k,
                 VFloat (Max (temperature `
                   {r \<in> set (table st). in_window s e r \<and> column_value c r = k})),
                 VFloat (Min (temperature `
                   {r \<in> set (table st). in_window s e r \<and> column_value c r = k})),
                 stddev ev (map temperature
                   (filter (\<lambda>r. in_window s e r \<and> column_value c r = k) (table st)))]) ?keys)"
    using d k q unfolding execute_stats by (intro conjI)
  then have ex: "\<exists>keys. distinct keys
      \<and> set keys = column_value c ` {r \<in> set (table st). in_window s e r}
      \<and> fst (query_stats ev g f st) =
          Inr (map (\<lambda>k. [k,
                 VFloat (Max (temperature `
                   {r \<in> set (table st). in_window s e r \<and> column_value c r = k})),
                 VFloat (Min (temperature `
                   {r \<in> set (table st). in_window s e r \<and> column_value c r = k})),
                 stddev ev (map temperature
                   (filter (\<lambda>r. in_window s e r \<and> column_value c r = k) (table st)))]) keys)"
    by (rule exI[where x = "?keys"])
  show ?thesis
    using ex by (simp add: get_cities_stats_def get_countries_stats_def)
qed

lemma set_insert_by: "set (insert_by le x xs) = insert x (set xs)"
  by (induction xs) auto

lemma sort_by_Cons: "sort_by le (x # xs) = insert_by le x (sort_by le xs)"
  by (simp add: sort_by_def)

lemma set_sort_by: "set (sort_by le xs) = set xs"
  by (induction xs) (simp_all add: sort_by_Cons set_insert_by, simp add: sort_by_def)

lemma insert_by_sorted:
  fixes key :: "'a \<Rightarrow> real"
  assumes "\<forall>a\<in>insert x (set ys). \<forall>b\<in>insert x (set ys). le a b = (key a \<le> key b)"
    and "sorted (map key ys)"
  shows "sorted (map key (insert_by le x ys))"
  using assms
proof (induction ys)
  case Nil
  then show ?case by simp
next
  case (Cons y ys)
  have xy: "le x y = (key x \<le> key y)" using Cons.prems(1) by simp
  show ?case
  proof (cases "le x y")
    case True
    then have "key x \<le> key y" using xy by simp
    then show ?thesis using True Cons.prems(2) by auto
  next
    case False
    then have yx: "key y \<le> key x" using xy by simp
    have ih: "sorted (map key (insert_by le x ys))"
      using Cons.IH Cons.prems by simp
    show ?thesis
      using False ih yx Cons.prems(2) by (auto simp: set_insert_by)
  qed
qed

lemma sort_by_sorted:
  fixes key :: "'a \<Rightarrow> real"
  assumes "\<forall>a\<in>set xs. \<forall>b\<in>set xs. le a b = (key a \<le> key b)"
  shows "sorted (map key (sort_by le xs))"
  using assms
proof (induction xs)
  case Nil
  then show ?case by (simp add: sort_by_def)
next
  case (Cons x xs)
  have ih: "sorted (map key (sort_by le xs))" using Cons by simp
  have "\<forall>a\<in>insert x (set (sort_by le xs)). \<forall>b\<in>insert x (set (sort_by le xs)).
      le a b = (key a \<le> key b)"
    using Cons.prems by (simp add: set_sort_by)
  then show ?case
    unfolding sort_by_Cons using ih by (rule insert_by_sorted)
qed

lemma sort_by_first:
  fixes key :: "'a \<Rightarrow> real"
  assumes "\<forall>a\<in>set xs. \<forall>b\<in>set xs. le a b = (key a \<le> key b)" and "xs \<noteq> []"
  shows "\<exists>g rest. sort_by le xs = g # rest \<and> g \<in> set xs \<and> (\<forall>y\<in>set xs. key g \<le> key y)"
proof -
  have "set (sort_by le xs) \<noteq> {}" using assms(2) by (simp add: set_sort_by)
  then obtain g rest where gr: "sort_by le xs = g # rest"
    by (cases "sort_by le xs") auto
  have gin: "g \<in> set xs" using set_sort_by[of le xs] gr by auto
  have "sorted (map key (g # rest))"
    using sort_by_sorted[OF assms(1)] gr by simp
  then have "\<forall>y\<in>set (g # rest). key g \<le> key y" by auto
  moreover have "set xs = set (g # rest)"
    using set_sort_by[of le xs] gr by simp
  ultimately have "\<forall>y\<in>set xs. key g \<le> key y" by blast
  then show ?thesis using gr gin by blast
qed

lemma city_groups:
  assumes "g \<in> set (map (\<lambda>k. filter (\<lambda>r. column_value ColCity r = k) (filter (in_window s e) rs))
                    (remdups (map (column_value ColCity) (filter (in_window s e) rs))))"
  shows "\<exists>c. (\<exists>r\<in>set rs. in_window s e r \<and> city r = c)
           \<and> g = filter (\<lambda>r. in_window s e r \<and> city r = c) rs
           \<and> g \<noteq> []
           \<and> (case g of [] \<Rightarrow> VNull | r # _ \<Rightarrow> column_value ColCity r) = VStr c"
proof -
  let ?W = "filter (in_window s e) rs"
  obtain k where k: "k \<in> set (map (column_value ColCity) ?W)"
    and g: "g = filter (\<lambda>r. column_value ColCity r = k) ?W"
    using assms by auto
  obtain r0 where r0: "r0 \<in> set ?W" "k = VStr (city r0)" using k by auto
  have g': "g = filter (\<lambda>r. in_window s e r \<and> city r = city r0) rs"
    unfolding g r0(2) by simp
  have "\<exists>r\<in>set rs. in_window s e r \<and> city r = city r0" using r0(1) by auto
  moreover have "g \<noteq> []" unfolding g by (rule group_nonempty[OF k])
  moreover have "(case g of [] \<Rightarrow> VNull | r # _ \<Rightarrow> column_value ColCity r) = VStr (city r0)"
    unfolding g using group_key[OF k] r0(2) by simp
  ultimately show ?thesis using g' by blast
qed

lemma city_groups_cover:
  assumes "r \<in> set rs" "in_window s e r"
  shows "filter (\<lambda>x. in_window s e x \<and> city x = city r) rs
     \<in> set (map (\<lambda>k. filter (\<lambda>r. column_value ColCity r = k) (filter (in_window s e) rs))
                    (remdups (map (column_value ColCity) (filter (in_window s e) rs))))"
proof -
  have m: "VStr (city r) \<in> set (remdups (map (column_value ColCity) (filter (in_window s e) rs)))"
    using assms by force
  have eq: "filter (\<lambda>x. column_value ColCity x = VStr (city r)) (filter (in_window s e) rs)
      = filter (\<lambda>x. in_window s e x \<and> city x = city r) rs"
    by simp
  have "(\<lambda>k. filter (\<lambda>r. column_value ColCity r = k) (filter (in_window s e) rs)) (VStr (city r))
      \<in> (\<lambda>k. filter (\<lambda>r. column_value ColCity r = k) (filter (in_window s e) rs)) `
          set (remdups (map (column_value ColCity) (filter (in_window s e) rs)))"
    using m by (rule imageI)
  then show ?thesis unfolding set_map eq .
qed

lemma extremes_min:
  "({r \<in> set rs. in_window s e r} = {} \<longrightarrow>
      first_row (execute sd
       \<lparr>q_columns = [(Column ColCity, None), (FuncMin ColTemperature, lbl)],
        q_where = [GreaterEq ColWeatherDataDate (VDateTime s),
                   Less ColWeatherDataDate (VDateTime e)],
        q_group_by = Some ColCity,
        q_order_by = Some (Asc (FuncMin ColTemperature))\<rparr> rs) = None) \<and>
   ({r \<in> set rs. in_window s e r} \<noteq> {} \<longrightarrow>
      (\<exists>c t. first_row (execute sd
         \<lparr>q_columns = [(Column ColCity, None), (FuncMin ColTemperature, lbl)],
          q_where = [GreaterEq ColWeatherDataDate (VDateTime s),
                     Less ColWeatherDataDate (VDateTime e)],
          q_group_by = Some ColCity,
          q_order_by = Some (Asc (FuncMin ColTemperature))\<rparr> rs) = Some [VStr c, VFloat t]
        \<and> (\<exists>r\<in>{r \<in> set rs. in_window s e r}. city r = c)
        \<and> t = Min (temperature ` {r \<in> {r \<in> set rs. in_window s e r}. city r = c})
        \<and> t = Min (temperature ` {r \<in> set rs. in_window s e r})))"
proof -
  define W where "W = {r \<in> set rs. in_window s e r}"
  define res where "res = first_row (execute sd
     \<lparr>q_columns = [(Column ColCity, None), (FuncMin ColTemperature, lbl)],
      q_where = [GreaterEq ColWeatherDataDate (VDateTime s),
                 Less ColWeatherDataDate (VDateTime e)],
      q_group_by = Some ColCity,
      q_order_by = Some (Asc (FuncMin ColTemperature))\<rparr> rs)"
  let ?Wl = "filter (in_window s e) rs"
  let ?gs = "map (\<lambda>k. filter (\<lambda>r. column_value ColCity r = k) ?Wl)
               (remdups (map (column_value ColCity) ?Wl))"
  let ?le = "\<lambda>g h. sql_le (agg_min (map (column_value ColTemperature) g))
                       (agg_min (map (column_value ColTemperature) h))"
  let ?row = "\<lambda>g. [case g of [] \<Rightarrow> VNull | r # _ \<Rightarrow> column_value ColCity r,
                  agg_min (map (column_value ColTemperature) g)]"
  let ?key = "\<lambda>g. Min (temperature ` set g)"
  have unf: "res = first_row (map ?row (sort_by ?le ?gs))"
    unfolding res_def
    by (simp add: execute_def groups_def ordered_def comp_def in_window_def[abs_def])
  have Wset: "set ?Wl = W" unfolding W_def by auto
  have "(W = {} \<longrightarrow> res = None) \<and>
     (W \<noteq> {} \<longrightarrow> (\<exists>c t. res = Some [VStr c, VFloat t]
        \<and> (\<exists>r\<in>W. city r = c)
        \<and> t = Min (temperature ` {r \<in> W. city r = c})
        \<and> t = Min (temperature ` W)))"
  proof (intro conjI impI)
    assume "W = {}"
    then have "set ?Wl = {}" using Wset by simp
    then have "?Wl = []" by (simp only: set_empty)
    then show "res = None" unfolding unf by (simp add: sort_by_def first_row_def)
  next
    assume ne: "W \<noteq> {}"
    have "?Wl \<noteq> []"
    proof
      assume "?Wl = []"
      then have "set ?Wl = {}" by (simp only: set_empty)
      then show False using Wset ne by simp
    qed
    then have gne: "?gs \<noteq> []" by simp
    have nonempty: "g \<noteq> []" if "g \<in> set ?gs" for g
      using city_groups[OF that] by blast
    have le: "\<forall>a\<in>set ?gs. \<forall>b\<in>set ?gs. ?le a b = (?key a \<le> ?key b)"
    proof (intro ballI)
      fix a b assume "a \<in> set ?gs" "b \<in> set ?gs"
      then have "a \<noteq> []" "b \<noteq> []" using nonempty by blast+
      then show "?le a b = (?key a \<le> ?key b)"
        by (simp add: agg_min_temperature)
    qed
    obtain g rest where gr: "sort_by ?le ?gs = g # rest" and gin: "g \<in> set ?gs"
      and gmin: "\<forall>y\<in>set ?gs. ?key g \<le> ?key y"
      using sort_by_first[OF le gne] by blast
    obtain c where c: "\<exists>r\<in>set rs. in_window s e r \<and> city r = c"
      "g = filter (\<lambda>r. in_window s e r \<and> city r = c) rs" "g \<noteq> []"
      "(case g of [] \<Rightarrow> VNull | r # _ \<Rightarrow> column_value ColCity r) = VStr c"
      using city_groups[OF gin] by blast
    have setg: "set g = {r \<in> W. city r = c}" unfolding c(2) W_def by auto
    have r1: "res = Some [VStr c, VFloat (?key g)]"
      unfolding unf gr by (simp add: first_row_def c(4) agg_min_temperature[OF c(3)])
    have lower: "?key g \<le> temperature r" if "r \<in> W" for r
    proof -
      let ?h = "filter (\<lambda>x. in_window s e x \<and> city x = city r) rs"
      have rin: "r \<in> set rs" "in_window s e r" using that unfolding W_def by auto
      have "?h \<in> set ?gs" by (rule city_groups_cover[OF rin])
      then have "?key g \<le> ?key ?h" using gmin by blast
      moreover have "r \<in> set ?h" using rin by simp
      then have "?key ?h \<le> temperature r" by (intro Min_le) auto
      ultimately show ?thesis by linarith
    qed
    have fin: "finite (temperature ` W)" unfolding W_def by simp
    have gW: "?key g \<in> temperature ` W"
    proof -
      have "?key g \<in> temperature ` set g"
        using c(3) by (intro Min_in) auto
      then show ?thesis unfolding setg by auto
    qed
    have glob: "?key g = Min (temperature ` W)"
      using lower gW fin by (intro Min_eqI[symmetric]) auto
    have "\<exists>r\<in>W. city r = c" using c(1) unfolding W_def by auto
    then show "\<exists>c t. res = Some [VStr c, VFloat t]
        \<and> (\<exists>r\<in>W. city r = c)
        \<and> t = Min (temperature ` {r \<in> W. city r = c})
        \<and> t = Min (temperature ` W)"
      using r1 glob setg by auto
  qed
  then show ?thesis unfolding W_def res_def .
qed

lemma extremes_max:
  "({r \<in> set rs. in_window s e r} = {} \<longrightarrow>
      first_row (execute sd
       \<lparr>q_columns = [(Column ColCity, None), (FuncMax ColTemperature, lbl)],
        q_where = [GreaterEq ColWeatherDataDate (VDateTime s),
                   Less ColWeatherDataDate (VDateTime e)],
        q_group_by = Some ColCity,
        q_order_by = Some (Desc (FuncMax ColTemperature))\<rparr> rs) = None) \<and>
   ({r \<in> set rs. in_window s e r} \<noteq> {} \<longrightarrow>
      (\<exists>c t. first_row (execute sd
         \<lparr>q_columns = [(Column ColCity, None), (FuncMax ColTemperature, lbl)],
          q_where = [GreaterEq ColWeatherDataDate (VDateTime s),
                     Less ColWeatherDataDate (VDateTime e)],
          q_group_by = Some ColCity,
          q_order_by = Some (Desc (FuncMax ColTemperature))\<rparr> rs) = Some [VStr c, VFloat t]
        \<and> (\<exists>r\<in>{r \<in> set rs. in_window s e r}. city r = c)
        \<and> t = Max (temperature ` {r \<in> {r \<in> set rs. in_window s e r}. city r = c})
        \<and> t = Max (temperature ` {r \<in> set rs. in_window s e r})))"
proof -
  define W where "W = {r \<in> set rs. in_window s e r}"
  define res where "res = first_row (execute sd
     \<lparr>q_columns = [(Column ColCity, None), (FuncMax ColTemperature, lbl)],
      q_where = [GreaterEq ColWeatherDataDate (VDateTime s),
                 Less ColWeatherDataDate (VDateTime e)],
      q_group_by = Some ColCity,
      q_order_by = Some (Desc (FuncMax ColTemperature))\<rparr> rs)"
  let ?Wl = "filter (in_window s e) rs"
  let ?gs = "map (\<lambda>k. filter (\<lambda>r. column_value ColCity r = k) ?Wl)
               (remdups (map (column_value ColCity) ?Wl))"
  let ?le = "\<lambda>g h. sql_le (agg_max (map (column_value ColTemperature) h))
                       (agg_max (map (column_value ColTemperature) g))"
  let ?row = "\<lambda>g. [case g of [] \<Rightarrow> VNull | r # _ \<Rightarrow> column_value ColCity r,
                  agg_max (map (column_value ColTemperature) g)]"
  let ?key = "\<lambda>g. - Max (temperature ` set g)"
  have unf: "res = first_row (map ?row (sort_by ?le ?gs))"
    unfolding res_def
    by (simp add: execute_def groups_def ordered_def comp_def in_window_def[abs_def])
  have Wset: "set ?Wl = W" unfolding W_def by auto
  have "(W = {} \<longrightarrow> res = None) \<and>
     (W \<noteq> {} \<longrightarrow> (\<exists>c t. res = Some [VStr c, VFloat t]
        \<and> (\<exists>r\<in>W. city r = c)
        \<and> t = Max (temperature ` {r \<in> W. city r = c})
        \<and> t = Max (temperature ` W)))"
  proof (intro conjI impI)
    assume "W = {}"
    then have "set ?Wl = {}" using Wset by simp
    then have "?Wl = []" by (simp only: set_empty)
    then show "res = None" unfolding unf by (simp add: sort_by_def first_row_def)
  next
    assume ne: "W \<noteq> {}"
    have "?Wl \<noteq> []"
    proof
      assume "?Wl = []"
      then have "set ?Wl = {}" by (simp only: set_empty)
      then show False using Wset ne by simp
    qed
    then have gne: "?gs \<noteq> []" by simp
    have nonempty: "g \<noteq> []" if "g \<in> set ?gs" for g
      using city_groups[OF that] by blast
    have le: "\<forall>a\<in>set ?gs. \<forall>b\<in>set ?gs. ?le a b = (?key a \<le> ?key b)"
    proof (intro ballI)
      fix a b assume "a \<in> set ?gs" "b \<in> set ?gs"
      then have ne: "a \<noteq> []" "b \<noteq> []" using nonempty by blast+
      show "?le a b = (?key a \<le> ?key b)"
        unfolding agg_max_temperature[OF ne(1)] agg_max_temperature[OF ne(2)]
        by (simp only: sql_le.simps neg_le_iff_le)
    qed
    obtain g rest where gr: "sort_by ?le ?gs = g # rest" and gin: "g \<in> set ?gs"
      and gmin: "\<forall>y\<in>set ?gs. ?key g \<le> ?key y"
      using sort_by_first[OF le gne] by blast
    obtain c where c: "\<exists>r\<in>set rs. in_window s e r \<and> city r = c"
      "g = filter (\<lambda>r. in_window s e r \<and> city r = c) rs" "g \<noteq> []"
      "(case g of [] \<Rightarrow> VNull | r # _ \<Rightarrow> column_value ColCity r) = VStr c"
      using city_groups[OF gin] by blast
    have setg: "set g = {r \<in> W. city r = c}" unfolding c(2) W_def by auto
    have r1: "res = Some [VStr c, VFloat (- ?key g)]"
      unfolding unf gr by (simp add: first_row_def c(4) agg_max_temperature[OF c(3)])
    have lower: "temperature r \<le> - ?key g" if "r \<in> W" for r
    proof -
      let ?h = "filter (\<lambda>x. in_window s e x \<and> city x = city r) rs"
      have rin: "r \<in> set rs" "in_window s e r" using that unfolding W_def by auto
      have "?h \<in> set ?gs" by (rule city_groups_cover[OF rin])
      then have "?key g \<le> ?key ?h" using gmin by blast
      moreover have "r \<in> set ?h" using rin by simp
      then have "temperature r \<le> - ?key ?h" by (simp del: set_filter)
      ultimately show ?thesis by linarith
    qed
    have fin: "finite (temperature ` W)" unfolding W_def by simp
    have gW: "- ?key g \<in> temperature ` W"
    proof -
      have "Max (temperature ` set g) \<in> temperature ` set g"
        using c(3) by (intro Max_in) auto
      then show ?thesis unfolding setg by auto
    qed
    have glob: "- ?key g = Max (temperature ` W)"
      using lower gW fin by (intro Max_eqI[symmetric]) auto
    have "\<exists>r\<in>W. city r = c" using c(1) unfolding W_def by auto
    then show "\<exists>c t. res = Some [VStr c, VFloat t]
        \<and> (\<exists>r\<in>W. city r = c)
        \<and> t = Max (temperature ` {r \<in> W. city r = c})
        \<and> t = Max (temperature ` W)"
      using r1 glob setg by auto
  qed
  then show ?thesis unfolding W_def res_def .
qed

lemma execute_label_irrelevant:
  "execute sd \<lparr>q_columns = [(c1, l1), (c2, l2)], q_where = w, q_group_by = g, q_order_by = ob\<rparr> rs
   = execute sd \<lparr>q_columns = [(c1, l1'), (c2, l2')], q_where = w, q_group_by = g, q_order_by = ob\<rparr> rs"
  by (simp add: execute_def groups_def ordered_def)

lemma extremes_query_shape:
  "order_by
     (group_by
        (where_clause
           (select [(Column ColCity, None), (fn, lbl)])
           [GreaterEq ColWeatherDataDate (VDateTime s), Less ColWeatherDataDate (VDateTime e)])
        ColCity) ob
   = \<lparr>q_columns = [(Column ColCity, None), (fn, lbl)],
      q_where = [GreaterEq ColWeatherDataDate (VDateTime s),
                 Less ColWeatherDataDate (VDateTime e)],
      q_group_by = Some ColCity, q_order_by = Some ob\<rparr>"
  by (simp add: select_def where_clause_def group_by_def order_by_def)

lemma get_temperature_extremes_min:
  assumes "parse_date_filter ev f = Inr (s, e)" and "te \<noteq> Some ''max''"
  shows "get_temperature_extremes ev f te st =
     (Inr (first_row (execute (stddev ev)
        \<lparr>q_columns = [(Column ColCity, None),
                       (FuncMin ColTemperature, Some (py_str te @ ''_temp''))],
          q_where = [GreaterEq ColWeatherDataDate (VDateTime s),
                     Less ColWeatherDataDate (VDateTime e)],
          q_group_by = Some ColCity,
          q_order_by = Some (Asc (FuncMin ColTemperature))\<rparr> (table st))),
      st\<lparr>sql_trace := sql_trace st @
        [\<lparr>q_columns = [(Column ColCity, None),
                        (FuncMin ColTemperature, Some (py_str te @ ''_temp''))],
          q_where = [GreaterEq ColWeatherDataDate (VDateTime s),
                     Less ColWeatherDataDate (VDateTime e)],
          q_group_by = Some ColCity,
          q_order_by = Some (Asc (FuncMin ColTemperature))\<rparr>]\<rparr>)"
  unfolding get_temperature_extremes_def assms(1)
  using assms(2) by (simp add: Let_def extremes_query_shape session_exec_def)

lemma get_temperature_extremes_max:
  assumes "parse_date_filter ev f = Inr (s, e)"
  shows "get_temperature_extremes ev f (Some ''max'') st =
     (Inr (first_row (execute (stddev ev)
        \<lparr>q_columns = [(Column ColCity, None), (FuncMax ColTemperature, Some ''max_temp'')],
          q_where = [GreaterEq ColWeatherDataDate (VDateTime s),
                     Less ColWeatherDataDate (VDateTime e)],
          q_group_by = Some ColCity,
          q_order_by = Some (Desc (FuncMax ColTemperature))\<rparr> (table st))),
      st\<lparr>sql_trace := sql_trace st @
        [\<lparr>q_columns = [(Column ColCity, None), (FuncMax ColTemperature, Some ''max_temp'')],
          q_where = [GreaterEq ColWeatherDataDate (VDateTime s),
                     Less ColWeatherDataDate (VDateTime e)],
          q_group_by = Some ColCity,
          q_order_by = Some (Desc (FuncMax ColTemperature))\<rparr>]\<rparr>)"
  unfolding get_temperature_extremes_def assms(1)
  by (simp add: Let_def extremes_query_shape session_exec_def py_str_def)

text \<open>
  Claim C9. For every \<open>temp_extreme\<close> other than the exact string \<open>max\<close> (any other
  string, or \<open>None\<close>), \<open>get_temperature_extremes\<close> sends the query that aggregates
  with \<open>min(temperature)\<close> per city and orders ascending, and returns what it returns
  for \<open>min\<close>: \<open>None\<close> when no row lies in the window, else a city of the window with
  its minimum temperature, which is the lowest temperature of the window. Only
  \<open>max\<close> selects the maximum: then the result is a city with its maximum temperature,
  the highest of the window.
\<close>

theorem temperature_extremes_default_min:
  assumes "parse_date_filter ev f = Inr (s, e)" and "te \<noteq> Some ''max''"
  shows
    "sql_trace (snd (get_temperature_extremes ev f te st)) = sql_trace st @
        [\<lparr>q_columns = [(Column ColCity, None),
                        (FuncMin ColTemperature, Some (py_str te @ ''_temp''))],
          q_where = [GreaterEq ColWeatherDataDate (VDateTime s),
                     Less ColWeatherDataDate (VDateTime e)],
          q_group_by = Some ColCity,
          q_order_by = Some (Asc (FuncMin ColTemperature))\<rparr>]
     \<and> fst (get_temperature_extremes ev f te st)
         = fst (get_temperature_extremes ev f (Some ''min'') st)
     \<and> ({r \<in> set (table st). in_window s e r} = {} \<longrightarrow>
          fst (get_temperature_extremes ev f te st) = Inr None)
     \<and> ({r \<in> set (table st). in_window s e r} \<noteq> {} \<longrightarrow>
          (\<exists>c t. fst (get_temperature_extremes ev f te st) = Inr (Some [VStr c, VFloat t])
            \<and> (\<exists>r\<in>{r \<in> set (table st). in_window s e r}. city r = c)
            \<and> t = Min (temperature ` {r \<in> {r \<in> set (table st). in_window s e r}. city r = c})
            \<and> t = Min (temperature ` {r \<in> set (table st). in_window s e r})))
     \<and> ({r \<in> set (table st). in_window s e r} \<noteq> {} \<longrightarrow>
          (\<exists>c t. fst (get_temperature_extremes ev f (Some ''max'') st)
                = Inr (Some [VStr c, VFloat t])
            \<and> (\<exists>r\<in>{r \<in> set (table st). in_window s e r}. city r = c)
            \<and> t = Max (temperature ` {r \<in> {r \<in> set (table st). in_window s e r}. city r = c})
            \<and> t = Max (temperature ` {r \<in> set (table st). in_window s e r})))"
proof -
  have neq: "Some ''min'' \<noteq> Some ''max''" by simp
  note m = get_temperature_extremes_min[OF assms, of st]
  note m' = get_temperature_extremes_min[OF assms(1) neq, of st]
  note x = get_temperature_extremes_max[OF assms(1), of st]
  have c1: "sql_trace (snd (get_temperature_extremes ev f te st)) = sql_trace st @
        [\<lparr>q_columns = [(Column ColCity, None),
                        (FuncMin ColTemperature, Some (py_str te @ ''_temp''))],
          q_where = [GreaterEq ColWeatherDataDate (VDateTime s),
                     Less ColWeatherDataDate (VDateTime e)],
          q_group_by = Some ColCity,
          q_order_by = Some (Asc (FuncMin ColTemperature))\<rparr>]"
    unfolding m by simp
  have c2: "fst (get_temperature_extremes ev f te st)
         = fst (get_temperature_extremes ev f (Some ''min'') st)"
  proof -
    have e: "execute (stddev ev)
        \<lparr>q_columns = [(Column ColCity, None),
                       (FuncMin ColTemperature, Some (py_str te @ ''_temp''))],
          q_where = [GreaterEq ColWeatherDataDate (VDateTime s),
                     Less ColWeatherDataDate (VDateTime e)],
          q_group_by = Some ColCity,
          q_order_by = Some (Asc (FuncMin ColTemperature))\<rparr> (table st)
      = execute (stddev ev)
        \<lparr>q_columns = [(Column ColCity, None),
                       (FuncMin ColTemperature, Some (py_str (Some ''min'') @ ''_temp''))],
          q_where = [GreaterEq ColWeatherDataDate (VDateTime s),
                     Less ColWeatherDataDate (VDateTime e)],
          q_group_by = Some ColCity,
          q_order_by = Some (Asc (FuncMin ColTemperature))\<rparr> (table st)"
      by (rule execute_label_irrelevant)
    show ?thesis unfolding m m' fst_conv e ..
  qed
  have c34: "({r \<in> set (table st). in_window s e r} = {} \<longrightarrow>
          fst (get_temperature_extremes ev f te st) = Inr None)
     \<and> ({r \<in> set (table st). in_window s e r} \<noteq> {} \<longrightarrow>
          (\<exists>c t. fst (get_temperature_extremes ev f te st) = Inr (Some [VStr c, VFloat t])
            \<and> (\<exists>r\<in>{r \<in> set (table st). in_window s e r}. city r = c)
            \<and> t = Min (temperature ` {r \<in> {r \<in> set (table st). in_window s e r}. city r = c})
            \<and> t = Min (temperature ` {r \<in> set (table st). in_window s e r})))"
    unfolding m fst_conv
    using extremes_min[of "table st" s e "stddev ev" "Some (py_str te @ ''_temp'')"]
    by simp
  have c5: "{r \<in> set (table st). in_window s e r} \<noteq> {} \<longrightarrow>
          (\<exists>c t. fst (get_temperature_extremes ev f (Some ''max'') st)
                = Inr (Some [VStr c, VFloat t])
            \<and> (\<exists>r\<in>{r \<in> set (table st). in_window s e r}. city r = c)
            \<and> t = Max (temperature ` {r \<in> {r \<in> set (table st). in_window s e r}. city r = c})
            \<and> t = Max (temperature ` {r \<in> set (table st). in_window s e r}))"
    unfolding x fst_conv
    using extremes_max[of "table st" s e "stddev ev" "Some ''max_temp''"]
    by simp
  show ?thesis using c1 c2 c34 c5 by (intro conjI) blast+
qed

lemma fold_logging_info:
  "fold (\<lambda>stat. logging_info (LRow stat)) stats st
   = st\<lparr>logs := logs st @ map (\<lambda>stat. LogInfo (LRow stat)) stats\<rparr>"
  by (induction stats arbitrary: st) (simp_all add: logging_info_def)

lemma query_stats_run:
  assumes "parse_date_filter ev f = Inr (s, e)" and "getattr_model g = Inr c"
  shows "query_stats ev g f st =
     (Inr (execute (stddev ev)
        \<lparr>q_columns = [(Column c, None), (FuncMax ColTemperature, Some ''max_temp''),
                    (FuncMin ColTemperature, Some ''min_temp''),
                    (FuncStddev ColTemperature, Some ''stddev_temp'')],
          q_where = [GreaterEq ColWeatherDataDate (VDateTime s),
                 Less ColWeatherDataDate (VDateTime e)],
          q_group_by = Some c, q_order_by = None\<rparr> (table st)),
      st\<lparr>sql_trace := sql_trace st @
        [\<lparr>q_columns = [(Column c, None), (FuncMax ColTemperature, Some ''max_temp''),
                    (FuncMin ColTemperature, Some ''min_temp''),
                    (FuncStddev ColTemperature, Some ''stddev_temp'')],
          q_where = [GreaterEq ColWeatherDataDate (VDateTime s),
                 Less ColWeatherDataDate (VDateTime e)],
          q_group_by = Some c, q_order_by = None\<rparr>]\<rparr>)"
  unfolding query_stats_def assms stats_query_shape
  by (simp add: session_exec_def Let_def)

lemma getattr_country: "getattr_model ''country'' = Inr ColCountry"
  by (simp add: getattr_model_def)

lemma getattr_city: "getattr_model ''city'' = Inr ColCity"
  by (simp add: getattr_model_def)

lemma get_temperature_extremes_result:
  assumes "parse_date_filter ev f = Inr (s, e)"
  shows "get_temperature_extremes ev f te st =
     (Inr (first_row (execute (stddev ev) (extremes_query te s e) (table st))),
      st\<lparr>sql_trace := sql_trace st @ [extremes_query te s e]\<rparr>)"
proof (cases "te = Some ''max''")
  case True
  show ?thesis
    using get_temperature_extremes_max[OF assms, of st] True
    by (simp add: py_str_def extremes_query_def)
next
  case False
  show ?thesis
    using get_temperature_extremes_min[OF assms False, of st] False
    by (simp add: extremes_query_def)
qed

text \<open>
  Claim C7. With a database engine at hand, \<open>fetch_weather_stats\<close> sends exactly one
  query when \<open>data_type\<close> is one of the four known values and the date filter gives a
  window: the statistics grouped by country for \<open>countries\<close>, grouped by city for
  \<open>cities\<close>, the temperature extreme with the given \<open>temp_extreme\<close> for
  \<open>extremes\<close>, the count of rain hours for \<open>rain\<close>; the result is logged. When the
  date filter is rejected, its exception is passed on and no query is sent. For every
  other \<open>data_type\<close> no query is sent and one error is logged.
\<close>

theorem fetch_weather_stats_dispatch:
  assumes "engine_error ev = None"
  shows
    "(\<forall>s e. parse_date_filter ev f = Inr (s, e) \<longrightarrow>
        fetch_weather_stats ev ''countries'' f te st =
          (Inr (), st\<lparr>sql_trace := sql_trace st @ [stats_query ColCountry s e],
                      logs := logs st @ map (\<lambda>stat. LogInfo (LRow stat))
                        (execute (stddev ev) (stats_query ColCountry s e) (table st))\<rparr>)
      \<and> fetch_weather_stats ev ''cities'' f te st =
          (Inr (), st\<lparr>sql_trace := sql_trace st @ [stats_query ColCity s e],
                      logs := logs st @ map (\<lambda>stat. LogInfo (LRow stat))
                        (execute (stddev ev) (stats_query ColCity s e) (table st))\<rparr>)
      \<and> fetch_weather_stats ev ''extremes'' f te st =
          (Inr (), st\<lparr>sql_trace := sql_trace st @ [extremes_query te s e],
                      logs := logs st @
                        [LogInfo (case first_row (execute (stddev ev) (extremes_query te s e)
                                                    (table st)) of
                                    None \<Rightarrow> LNone | Some r \<Rightarrow> LRow r)]\<rparr>)
      \<and> fetch_weather_stats ev ''rain'' f te st =
          (Inr (), st\<lparr>sql_trace := sql_trace st @ [rain_query s e],
                      logs := logs st @
                        [LogInfo (LScalar (VInt (int (length
                           (filter (\<lambda>r. in_window s e r \<and> rain_presence r) (table st))))))]\<rparr>))
     \<and> (\<forall>dt x. parse_date_filter ev f = Inl x
            \<and> dt \<in> {''countries'', ''cities'', ''extremes'', ''rain''} \<longrightarrow>
          fetch_weather_stats ev dt f te st = (Inl x, st))
     \<and> (\<forall>dt. dt \<notin> {''countries'', ''cities'', ''extremes'', ''rain''} \<longrightarrow>
          fetch_weather_stats ev dt f te st =
            (Inr (), st\<lparr>logs := logs st @ [LogError ''Invalid data type specified.'' None]\<rparr>))"
proof (intro conjI allI impI)
  fix s e assume p: "parse_date_filter ev f = Inr (s, e)"
  show "fetch_weather_stats ev ''countries'' f te st =
          (Inr (), st\<lparr>sql_trace := sql_trace st @ [stats_query ColCountry s e],
                      logs := logs st @ map (\<lambda>stat. LogInfo (LRow stat))
                        (execute (stddev ev) (stats_query ColCountry s e) (table st))\<rparr>)"
    unfolding fetch_weather_stats_def assms get_countries_stats_def
      query_stats_run[OF p getattr_country] stats_query_def
    by (simp add: fold_logging_info)
  show "fetch_weather_stats ev ''cities'' f te st =
          (Inr (), st\<lparr>sql_trace := sql_trace st @ [stats_query ColCity s e],
                      logs := logs st @ map (\<lambda>stat. LogInfo (LRow stat))
                        (execute (stddev ev) (stats_query ColCity s e) (table st))\<rparr>)"
    unfolding fetch_weather_stats_def assms get_cities_stats_def
      query_stats_run[OF p getattr_city] stats_query_def
    by (simp add: fold_logging_info)
  show "fetch_weather_stats ev ''extremes'' f te st =
          (Inr (), st\<lparr>sql_trace := sql_trace st @ [extremes_query te s e],
                      logs := logs st @
                        [LogInfo (case first_row (execute (stddev ev) (extremes_query te s e)
                                                    (table st)) of
                                    None \<Rightarrow> LNone | Some r \<Rightarrow> LRow r)]\<rparr>)"
    unfolding fetch_weather_stats_def assms get_temperature_extremes_result[OF p]
    by (simp add: logging_info_def)
  show "fetch_weather_stats ev ''rain'' f te st =
          (Inr (), st\<lparr>sql_trace := sql_trace st @ [rain_query s e],
                      logs := logs st @
                        [LogInfo (LScalar (VInt (int (length
                           (filter (\<lambda>r. in_window s e r \<and> rain_presence r) (table st))))))]\<rparr>)"
    unfolding fetch_weather_stats_def assms count_rain_hours_result[OF p] rain_query_def
    by (simp add: logging_info_def)
next
  fix dt x
  assume a: "parse_date_filter ev f = Inl x
      \<and> dt \<in> {''countries'', ''cities'', ''extremes'', ''rain''}"
  then have p: "parse_date_filter ev f = Inl x" by simp
  have q: "query_stats ev g f st = (Inl x, st)" for g
    by (simp add: query_stats_def p)
  show "fetch_weather_stats ev dt f te st = (Inl x, st)"
    using a unfolding fetch_weather_stats_def assms
    by (auto simp: get_countries_stats_def get_cities_stats_def q
        get_temperature_extremes_def count_rain_hours_def p)
next
  fix dt assume "dt \<notin> {''countries'', ''cities'', ''extremes'', ''rain''}"
  then show "fetch_weather_stats ev dt f te st =
            (Inr (), st\<lparr>logs := logs st @ [LogError ''Invalid data type specified.'' None]\<rparr>)"
    unfolding fetch_weather_stats_def assms by (simp add: logging_error_def)
qed

text \<open>
  Claim C6. When the date filter gives the window from \<open>s\<close> to \<open>e\<close>,
  \<open>count_rain_hours\<close> returns the number of stored rows whose
  \<open>weather_data_date\<close> lies in the window and whose \<open>rain_presence\<close> is true; the
  table is left as it was.
\<close>

theorem count_rain_hours_counts:
  assumes "parse_date_filter ev f = Inr (s, e)"
  shows "fst (count_rain_hours ev f st) =
      Inr (VInt (int (length (filter (\<lambda>r. in_window s e r \<and> rain_presence r) (table st)))))
    \<and> table (snd (count_rain_hours ev f st)) = table st"
  unfolding count_rain_hours_result[OF assms] by simp

lemma demo_valid: "valid_datetime (clock demo_env)"
  by (simp add: demo_env_def valid_datetime_def MAXORDINAL_def)

lemma demo_today:
  "parse_date_filter demo_env ''today'' = Inr (midnight 738951, midnight 738952)"
  using parse_today[OF demo_valid] by (simp add: demo_env_def MAXORDINAL_def)

lemma demo_window:
  "filter (in_window (midnight 738951) (midnight 738952)) demo_rows = take 3 demo_rows"
  by (simp add: demo_rows_def in_window_def timestamp_us_def midnight_def)

text \<open>Two of the three observations of 2024-03-06 report rain.\<close>

theorem count_rain_hours_counts_witness:
  "parse_date_filter demo_env ''today'' = Inr (midnight 738951, midnight 738952)
   \<and> fst (count_rain_hours demo_env ''today'' demo_state) = Inr (VInt 2)"
proof -
  have "length (filter (\<lambda>r. in_window (midnight 738951) (midnight 738952) r \<and> rain_presence r)
      (table demo_state)) = 2"
    by (simp add: demo_state_def demo_rows_def in_window_def timestamp_us_def midnight_def)
  then show ?thesis
    using count_rain_hours_counts[OF demo_today, of demo_state] demo_today by simp
qed

text \<open>The filter \<open>tomorrow\<close> is rejected by all four operations.\<close>

theorem unrecognized_filter_raises_witness:
  "''tomorrow'' \<notin> {''selected_hour'', ''today'', ''yesterday'', ''current_week'', ''last_seven_days''}
   \<and> parse_date_filter demo_env ''tomorrow'' = Inl ValueError
   \<and> query_stats demo_env ''city'' ''tomorrow'' demo_state = (Inl ValueError, demo_state)
   \<and> get_temperature_extremes demo_env ''tomorrow'' (Some ''max'') demo_state
       = (Inl ValueError, demo_state)
   \<and> count_rain_hours demo_env ''tomorrow'' demo_state = (Inl ValueError, demo_state)"
proof -
  have n: "''tomorrow'' \<notin> {''selected_hour'', ''today'', ''yesterday'', ''current_week'',
      ''last_seven_days''}"
    by simp
  show ?thesis
    using n unrecognized_filter_raises[OF n, of demo_env "''city''" demo_state "Some ''max''"]
    by (intro conjI) simp_all
qed

lemma demo_city_stats:
  "execute stddev_samp (stats_query ColCity (midnight 738951) (midnight 738952)) demo_rows
   = [[VStr ''London'', VFloat 11, VFloat 7, stddev_samp [11, 7]],
      [VStr ''Berlin'', VFloat 4, VFloat 4, stddev_samp [4]]]"
  unfolding execute_def stats_query_def
  by (simp add: demo_window[unfolded demo_rows_def] in_window_def[abs_def] demo_rows_def groups_def ordered_def
      timestamp_us_def midnight_def agg_max_def agg_min_def)

text \<open>The statistics by city of 2024-03-06: London and Berlin.\<close>

theorem query_stats_groups_witness:
  "parse_date_filter demo_env ''today'' = Inr (midnight 738951, midnight 738952)
   \<and> getattr_model ''city'' = Inr ColCity
   \<and> fst (query_stats demo_env ''city'' ''today'' demo_state)
       = Inr [[VStr ''London'', VFloat 11, VFloat 7, stddev_samp [11, 7]],
              [VStr ''Berlin'', VFloat 4, VFloat 4, stddev_samp [4]]]
   \<and> (\<exists>keys. distinct keys
      \<and> set keys = column_value ColCity `
            {r \<in> set (table demo_state). in_window (midnight 738951) (midnight 738952) r}
      \<and> fst (query_stats demo_env ''city'' ''today'' demo_state) =
          Inr (map (\<lambda>k. [k,
                 VFloat (Max (temperature ` {r \<in> set (table demo_state).
                    in_window (midnight 738951) (midnight 738952) r \<and> column_value ColCity r = k})),
                 VFloat (Min (temperature ` {r \<in> set (table demo_state).
                    in_window (midnight 738951) (midnight 738952) r \<and> column_value ColCity r = k})),
                 stddev demo_env (map temperature
                   (filter (\<lambda>r. in_window (midnight 738951) (midnight 738952) r
                      \<and> column_value ColCity r = k) (table demo_state)))]) keys))"
proof -
  have r: "fst (query_stats demo_env ''city'' ''today'' demo_state)
       = Inr [[VStr ''London'', VFloat 11, VFloat 7, stddev_samp [11, 7]],
              [VStr ''Berlin'', VFloat 4, VFloat 4, stddev_samp [4]]]"
    unfolding query_stats_run[OF demo_today getattr_city]
    using demo_city_stats by (simp add: stats_query_def demo_env_def demo_state_def)
  show ?thesis
    using query_stats_groups[OF demo_today getattr_city, of demo_state] demo_today getattr_city r
    by (intro conjI) blast+
qed

lemma demo_min_extreme:
  "first_row (execute stddev_samp (extremes_query (Some ''min'') (midnight 738951) (midnight 738952))
      demo_rows) = Some [VStr ''Berlin'', VFloat 4]"
  unfolding execute_def extremes_query_def
  by (simp add: in_window_def[abs_def] demo_rows_def groups_def ordered_def sort_by_def
      timestamp_us_def midnight_def agg_max_def agg_min_def first_row_def)

text \<open>Asked for \<open>MAX\<close> in capitals, the code answers with the coldest city.\<close>

theorem temperature_extremes_default_min_witness:
  "parse_date_filter demo_env ''today'' = Inr (midnight 738951, midnight 738952)
   \<and> Some ''MAX'' \<noteq> Some ''max''
   \<and> fst (get_temperature_extremes demo_env ''today'' (Some ''MAX'') demo_state)
       = Inr (Some [VStr ''Berlin'', VFloat 4])"
proof -
  have n: "Some ''MAX'' \<noteq> Some ''max''" by simp
  have m: "fst (get_temperature_extremes demo_env ''today'' (Some ''min'') demo_state)
       = Inr (Some [VStr ''Berlin'', VFloat 4])"
    unfolding get_temperature_extremes_result[OF demo_today]
    using demo_min_extreme by (simp add: demo_env_def demo_state_def)
  have "fst (get_temperature_extremes demo_env ''today'' (Some ''MAX'') demo_state)
      = fst (get_temperature_extremes demo_env ''today'' (Some ''min'') demo_state)"
    using temperature_extremes_default_min[OF demo_today n, of demo_state] by blast
  then show ?thesis using m n demo_today by simp
qed

text \<open>The rain count of 2024-03-06 is logged; the data type \<open>temperatures\<close> is refused.\<close>

theorem fetch_weather_stats_dispatch_witness:
  "engine_error demo_env = None
   \<and> parse_date_filter demo_env ''today'' = Inr (midnight 738951, midnight 738952)
   \<and> fetch_weather_stats demo_env ''rain'' ''today'' None demo_state =
       (Inr (), demo_state\<lparr>sql_trace := [rain_query (midnight 738951) (midnight 738952)],
                           logs := [LogInfo (LScalar (VInt 2))]\<rparr>)
   \<and> ''temperatures'' \<notin> {''countries'', ''cities'', ''extremes'', ''rain''}
   \<and> fetch_weather_stats demo_env ''temperatures'' ''today'' None demo_state =
       (Inr (), demo_state\<lparr>logs := [LogError ''Invalid data type specified.'' None]\<rparr>)"
proof -
  have en: "engine_error demo_env = None" by (simp add: demo_env_def)
  note th = fetch_weather_stats_dispatch[OF en, of "''today''" None demo_state]
  have n: "''temperatures'' \<notin> {''countries'', ''cities'', ''extremes'', ''rain''}" by simp
  have c: "length (filter (\<lambda>r. in_window (midnight 738951) (midnight 738952) r \<and> rain_presence r)
      (table demo_state)) = 2"
    by (simp add: demo_state_def demo_rows_def in_window_def timestamp_us_def midnight_def)
  note rain_raw = th[THEN conjunct1, rule_format, OF demo_today,
      THEN conjunct2, THEN conjunct2, THEN conjunct2]
  note other_raw = th[THEN conjunct2, THEN conjunct2, rule_format, OF n]
  have rain: "fetch_weather_stats demo_env ''rain'' ''today'' None demo_state =
       (Inr (), demo_state\<lparr>sql_trace := [rain_query (midnight 738951) (midnight 738952)],
                           logs := [LogInfo (LScalar (VInt 2))]\<rparr>)"
    unfolding rain_raw c by (simp add: demo_state_def)
  have other: "fetch_weather_stats demo_env ''temperatures'' ''today'' None demo_state =
       (Inr (), demo_state\<lparr>logs := [LogError ''Invalid data type specified.'' None]\<rparr>)"
    unfolding other_raw by (simp add: demo_state_def)
  show ?thesis using en demo_today rain n other by (intro conjI)
qed

section \<open>The ingestion function\<close>

lemma get_weather_not_200:
  assumes "requests_get w (complete_url api c) = Inr resp" "status_code resp \<noteq> 200"
  shows "get_weather w api c st =
     (Inr None, st\<lparr>http_trace := http_trace st @ [complete_url api c],
                    logs := logs st @ [LogError ''Error in the HTTP request'' None]\<rparr>)"
  using assms by (simp add: get_weather_def Let_def logging_error_def)

lemma get_weather_request_exception:
  assumes "requests_get w (complete_url api c) = Inl RequestException"
  shows "get_weather w api c st =
     (Inr None, st\<lparr>http_trace := http_trace st @ [complete_url api c],
                    logs := logs st @ [LogError ''An error occurred while making the request: ''
                                        (Some RequestException)]\<rparr>)"
  using assms by (simp add: get_weather_def Let_def logging_error_def is_RequestException_def)

lemma get_weather_200:
  assumes "requests_get w (complete_url api c) = Inr resp" "status_code resp = 200"
    "weather_of_response w c resp = Inr d"
  shows "get_weather w api c st =
     (Inr (Some d), st\<lparr>http_trace := http_trace st @ [complete_url api c]\<rparr>)"
  using assms by (simp add: get_weather_def Let_def)

lemma get_weather_Some:
  assumes "fst (get_weather w api c st) = Inr (Some d)"
  shows "\<exists>resp. requests_get w (complete_url api c) = Inr resp \<and> status_code resp = 200
           \<and> weather_of_response w c resp = Inr d"
  using assms unfolding get_weather_def Let_def
  by (auto split: sum.splits if_splits)

lemma bind_exn_Inr:
  "bind_exn m f = Inr y \<Longrightarrow> \<exists>x. m = Inr x \<and> f x = Inr y"
  by (cases m) (simp_all add: bind_exn_def)

lemma weather_of_response_city:
  assumes "weather_of_response w c resp = Inr d"
  shows "d_city d = c"
  using assms unfolding weather_of_response_def
  by (auto dest!: bind_exn_Inr)

text \<open>
  Claim C4. \<open>get_weather\<close> returns \<open>None\<close>, and logs an error, whenever the response
  status is not 200 and whenever \<open>requests.get\<close> raises \<open>RequestException\<close>; in
  neither case does it raise. It returns a dictionary only on a 200 response: the
  dictionary built from that response, with the city that was asked for; and a 200
  response whose body has the expected fields gives that dictionary.
\<close>

theorem get_weather_none_or_record:
  "(\<forall>resp. requests_get w (complete_url api c) = Inr resp \<and> status_code resp \<noteq> 200 \<longrightarrow>
       get_weather w api c st =
         (Inr None, st\<lparr>http_trace := http_trace st @ [complete_url api c],
                        logs := logs st @ [LogError ''Error in the HTTP request'' None]\<rparr>))
   \<and> (requests_get w (complete_url api c) = Inl RequestException \<longrightarrow>
       get_weather w api c st =
         (Inr None, st\<lparr>http_trace := http_trace st @ [complete_url api c],
                        logs := logs st @
                          [LogError ''An error occurred while making the request: ''
                             (Some RequestException)]\<rparr>))
   \<and> (\<forall>d. fst (get_weather w api c st) = Inr (Some d) \<longrightarrow>
         d_city d = c
         \<and> (\<exists>resp. requests_get w (complete_url api c) = Inr resp \<and> status_code resp = 200
               \<and> weather_of_response w c resp = Inr d))
   \<and> (\<forall>resp d. requests_get w (complete_url api c) = Inr resp \<and> status_code resp = 200
         \<and> weather_of_response w c resp = Inr d \<longrightarrow>
       get_weather w api c st =
         (Inr (Some d), st\<lparr>http_trace := http_trace st @ [complete_url api c]\<rparr>))"
proof (intro conjI allI impI)
  fix resp assume "requests_get w (complete_url api c) = Inr resp \<and> status_code resp \<noteq> 200"
  then show "get_weather w api c st =
         (Inr None, st\<lparr>http_trace := http_trace st @ [complete_url api c],
                        logs := logs st @ [LogError ''Error in the HTTP request'' None]\<rparr>)"
    using get_weather_not_200 by blast
next
  assume "requests_get w (complete_url api c) = Inl RequestException"
  then show "get_weather w api c st =
         (Inr None, st\<lparr>http_trace := http_trace st @ [complete_url api c],
                        logs := logs st @
                          [LogError ''An error occurred while making the request: ''
                             (Some RequestException)]\<rparr>)"
    by (rule get_weather_request_exception)
next
  fix d assume a: "fst (get_weather w api c st) = Inr (Some d)"
  from get_weather_Some[OF a] obtain resp where
    r: "requests_get w (complete_url api c) = Inr resp" "status_code resp = 200"
       "weather_of_response w c resp = Inr d"
    by blast
  show "d_city d = c" by (rule weather_of_response_city[OF r(3)])
  show "\<exists>resp. requests_get w (complete_url api c) = Inr resp \<and> status_code resp = 200
               \<and> weather_of_response w c resp = Inr d"
    using r by blast
next
  fix resp d
  assume "requests_get w (complete_url api c) = Inr resp \<and> status_code resp = 200
         \<and> weather_of_response w c resp = Inr d"
  then show "get_weather w api c st =
         (Inr (Some d), st\<lparr>http_trace := http_trace st @ [complete_url api c]\<rparr>)"
    using get_weather_200 by blast
qed

lemma demo_london_response:
  "weather_of_response demo_world ''London''
     \<lparr>status_code = 200, json_result = Inr (demo_body (JFloat 11))\<rparr>
   = Inr \<lparr>d_country = JStr ''GB'', d_city = ''London'', d_temperature = JFloat 11,
          d_rain_presence = True, d_weather_description = JStr ''light rain'',
          d_weather_data_date =
            \<lparr>ordinal = 738951, hour = 9, minute = 0, second = 0, microsecond = 0\<rparr>\<rparr>"
  by (simp add: weather_of_response_def bind_exn_def demo_body_def demo_world_def)

lemma demo_london_get:
  "requests_get demo_world (complete_url demo_api ''London'')
   = Inr \<lparr>status_code = 200, json_result = Inr (demo_body (JFloat 11))\<rparr>"
  by (simp add: demo_world_def)

lemma demo_berlin_get:
  "requests_get demo_world (complete_url demo_api ''Berlin'')
   = Inr \<lparr>status_code = 404, json_result = Inl RequestException\<rparr>"
  by (simp add: demo_world_def complete_url_def demo_api_def WeatherAPI_init_def py_str_def)

lemma demo_rome_get:
  "requests_get demo_world (complete_url demo_api ''Rome'') = Inl RequestException"
  by (simp add: demo_world_def complete_url_def demo_api_def WeatherAPI_init_def py_str_def)

text \<open>Berlin answers 404, the connection to Rome fails, London gives a record.\<close>

theorem get_weather_none_or_record_witness:
  "get_weather demo_world demo_api ''Berlin'' demo_state =
     (Inr None, demo_state\<lparr>http_trace := [complete_url demo_api ''Berlin''],
                          logs := [LogError ''Error in the HTTP request'' None]\<rparr>)
   \<and> get_weather demo_world demo_api ''Rome'' demo_state =
     (Inr None, demo_state\<lparr>http_trace := [complete_url demo_api ''Rome''],
                          logs := [LogError ''An error occurred while making the request: ''
                                     (Some RequestException)]\<rparr>)
   \<and> get_weather demo_world demo_api ''London'' demo_state =
     (Inr (Some \<lparr>d_country = JStr ''GB'', d_city = ''London'', d_temperature = JFloat 11,
          d_rain_presence = True, d_weather_description = JStr ''light rain'',
          d_weather_data_date =
            \<lparr>ordinal = 738951, hour = 9, minute = 0, second = 0, microsecond = 0\<rparr>\<rparr>),
      demo_state\<lparr>http_trace := [complete_url demo_api ''London'']\<rparr>)"
proof -
  note b = get_weather_none_or_record[of demo_world demo_api "''Berlin''" demo_state]
  note r = get_weather_none_or_record[of demo_world demo_api "''Rome''" demo_state]
  note l = get_weather_none_or_record[of demo_world demo_api "''London''" demo_state]
  have 1: "get_weather demo_world demo_api ''Berlin'' demo_state =
     (Inr None, demo_state\<lparr>http_trace := [complete_url demo_api ''Berlin''],
                          logs := [LogError ''Error in the HTTP request'' None]\<rparr>)"
    using b[THEN conjunct1, rule_format, of "\<lparr>status_code = 404, json_result = Inl RequestException\<rparr>"]
      demo_berlin_get
    by (simp add: demo_state_def)
  have 2: "get_weather demo_world demo_api ''Rome'' demo_state =
     (Inr None, demo_state\<lparr>http_trace := [complete_url demo_api ''Rome''],
                          logs := [LogError ''An error occurred while making the request: ''
                                     (Some RequestException)]\<rparr>)"
    using r[THEN conjunct2, THEN conjunct1, rule_format, OF demo_rome_get]
    by (simp add: demo_state_def)
  have 3: "get_weather demo_world demo_api ''London'' demo_state =
     (Inr (Some \<lparr>d_country = JStr ''GB'', d_city = ''London'', d_temperature = JFloat 11,
          d_rain_presence = True, d_weather_description = JStr ''light rain'',
          d_weather_data_date =
            \<lparr>ordinal = 738951, hour = 9, minute = 0, second = 0, microsecond = 0\<rparr>\<rparr>),
      demo_state\<lparr>http_trace := [complete_url demo_api ''London'']\<rparr>)"
    using l[THEN conjunct2, THEN conjunct2, THEN conjunct2, rule_format,
        of "\<lparr>status_code = 200, json_result = Inr (demo_body (JFloat 11))\<rparr>"]
      demo_london_get demo_london_response
    by (simp add: demo_state_def)
  show ?thesis using 1 2 3 by (intro conjI)
qed

lemma committed_table: "table (committed r st) = table st @ [stored r st]"
  by (simp add: committed_def stored_def split: option.splits)

lemma committed_other:
  "logs (committed r st) = logs st"
  "http_trace (committed r st) = http_trace st"
  "sql_trace (committed r st) = sql_trace st"
  "session_trace (committed r st) = session_trace st"
  by (simp_all add: committed_def split: option.splits)

lemma stored_session_trace: "stored r (st\<lparr>session_trace := t\<rparr>) = stored r st"
  by (simp add: stored_def split: option.splits)

lemma committed_session_call:
  "committed r (session_call c st) = session_call c (committed r st)"
  by (simp add: committed_def session_call_def split: option.splits)

lemma add_record_ok:
  assumes "session_add w r = None" "session_commit w r = None" "session_refresh w r = None"
  shows "add_record w r st =
     (Inr (), (committed r st)\<lparr>session_trace := session_trace st @
                                   [CallAdd r, CallCommit, CallRefresh r]\<rparr>)"
  using assms
  by (simp add: add_record_def Let_def session_call_def committed_def split: option.splits)

lemma add_record_add_fails:
  assumes "session_add w r = Some e"
  shows "add_record w r st =
     (case session_rollback w r of None \<Rightarrow> Inr () | Some e' \<Rightarrow> Inl e',
      st\<lparr>logs := logs st @ [LogError ''Database error: '' (Some e)],
         session_trace := session_trace st @ [CallAdd r, CallRollback]\<rparr>)"
  using assms
  by (simp add: add_record_def add_record_handler_def logging_error_def session_call_def Let_def
      split: option.splits)

lemma add_record_commit_fails:
  assumes "session_add w r = None" "session_commit w r = Some e"
  shows "add_record w r st =
     (case session_rollback w r of None \<Rightarrow> Inr () | Some e' \<Rightarrow> Inl e',
      st\<lparr>logs := logs st @ [LogError ''Database error: '' (Some e)],
         session_trace := session_trace st @ [CallAdd r, CallCommit, CallRollback]\<rparr>)"
  using assms
  by (simp add: add_record_def add_record_handler_def logging_error_def session_call_def Let_def
      split: option.splits)

lemma add_record_refresh_fails:
  assumes "session_add w r = None" "session_commit w r = None" "session_refresh w r = Some e"
  shows "add_record w r st =
     (case session_rollback w r of None \<Rightarrow> Inr () | Some e' \<Rightarrow> Inl e',
      (committed r st)\<lparr>logs := logs st @ [LogError ''Database error: '' (Some e)],
                       session_trace := session_trace st @
                         [CallAdd r, CallCommit, CallRefresh r, CallRollback]\<rparr>)"
  using assms
  by (simp add: add_record_def add_record_handler_def logging_error_def session_call_def Let_def
      committed_def split: option.splits)

lemma add_record_raises_only_from_rollback:
  "fst (add_record w r st) = Inr ()
   \<or> (\<exists>e'. session_rollback w r = Some e' \<and> fst (add_record w r st) = Inl e')"
  by (simp add: add_record_def add_record_handler_def Let_def split: option.splits)

text \<open>
  Claim C5, as amended. When \<open>add\<close>, \<open>commit\<close> and \<open>refresh\<close> succeed,
  \<open>add_record\<close> commits exactly the one record, logs nothing and does not roll back.
  When \<open>add\<close> or \<open>commit\<close> raises, it logs the error and calls \<open>session.rollback\<close>,
  and the table is unchanged. When \<open>refresh\<close> raises after the commit, it logs the
  error and calls \<open>session.rollback\<close>, but the record stays committed. In each of the
  three failures the state is the same whether the rollback returns or raises; what the
  rollback raises reaches the caller, and nothing else does.
\<close>

theorem add_record_outcomes:
  "(session_add w r = None \<and> session_commit w r = None \<and> session_refresh w r = None \<longrightarrow>
      add_record w r st =
        (Inr (), (committed r st)\<lparr>session_trace := session_trace st @
                                      [CallAdd r, CallCommit, CallRefresh r]\<rparr>))
   \<and> (\<forall>e. session_add w r = Some e \<longrightarrow>
      add_record w r st =
        (case session_rollback w r of None \<Rightarrow> Inr () | Some e' \<Rightarrow> Inl e',
         st\<lparr>logs := logs st @ [LogError ''Database error: '' (Some e)],
            session_trace := session_trace st @ [CallAdd r, CallRollback]\<rparr>))
   \<and> (\<forall>e. session_add w r = None \<and> session_commit w r = Some e \<longrightarrow>
      add_record w r st =
        (case session_rollback w r of None \<Rightarrow> Inr () | Some e' \<Rightarrow> Inl e',
         st\<lparr>logs := logs st @ [LogError ''Database error: '' (Some e)],
            session_trace := session_trace st @ [CallAdd r, CallCommit, CallRollback]\<rparr>))
   \<and> (\<forall>e. session_add w r = None \<and> session_commit w r = None
          \<and> session_refresh w r = Some e \<longrightarrow>
      add_record w r st =
        (case session_rollback w r of None \<Rightarrow> Inr () | Some e' \<Rightarrow> Inl e',
         (committed r st)\<lparr>logs := logs st @ [LogError ''Database error: '' (Some e)],
                          session_trace := session_trace st @
                            [CallAdd r, CallCommit, CallRefresh r, CallRollback]\<rparr>))
   \<and> (\<forall>e. session_add w r = Some e \<or> session_add w r = None \<and> session_commit w r = Some e
        \<longrightarrow> table (snd (add_record w r st)) = table st)
   \<and> table (committed r st) = table st @ [stored r st]
   \<and> logs (committed r st) = logs st
   \<and> (fst (add_record w r st) = Inr ()
        \<or> (\<exists>e'. session_rollback w r = Some e' \<and> fst (add_record w r st) = Inl e'))"
proof (intro conjI allI impI)
  assume "session_add w r = None \<and> session_commit w r = None \<and> session_refresh w r = None"
  then show "add_record w r st =
        (Inr (), (committed r st)\<lparr>session_trace := session_trace st @
                                      [CallAdd r, CallCommit, CallRefresh r]\<rparr>)"
    by (simp add: add_record_ok)
next
  fix e assume "session_add w r = Some e"
  then show "add_record w r st =
        (case session_rollback w r of None \<Rightarrow> Inr () | Some e' \<Rightarrow> Inl e',
         st\<lparr>logs := logs st @ [LogError ''Database error: '' (Some e)],
            session_trace := session_trace st @ [CallAdd r, CallRollback]\<rparr>)"
    by (rule add_record_add_fails)
next
  fix e assume "session_add w r = None \<and> session_commit w r = Some e"
  then have "session_add w r = None" "session_commit w r = Some e" by simp_all
  then show "add_record w r st =
        (case session_rollback w r of None \<Rightarrow> Inr () | Some e' \<Rightarrow> Inl e',
         st\<lparr>logs := logs st @ [LogError ''Database error: '' (Some e)],
            session_trace := session_trace st @ [CallAdd r, CallCommit, CallRollback]\<rparr>)"
    by (rule add_record_commit_fails)
next
  fix e
  assume "session_add w r = None \<and> session_commit w r = None \<and> session_refresh w r = Some e"
  then have "session_add w r = None" "session_commit w r = None" "session_refresh w r = Some e"
    by simp_all
  then show "add_record w r st =
        (case session_rollback w r of None \<Rightarrow> Inr () | Some e' \<Rightarrow> Inl e',
         (committed r st)\<lparr>logs := logs st @ [LogError ''Database error: '' (Some e)],
                          session_trace := session_trace st @
                            [CallAdd r, CallCommit, CallRefresh r, CallRollback]\<rparr>)"
    by (rule add_record_refresh_fails)
next
  fix e
  assume a: "session_add w r = Some e \<or> session_add w r = None \<and> session_commit w r = Some e"
  show "table (snd (add_record w r st)) = table st"
  proof (cases "session_add w r = Some e")
    case True
    show ?thesis unfolding add_record_add_fails[OF True] by simp
  next
    case False
    then have "session_add w r = None" "session_commit w r = Some e" using a by simp_all
    then show ?thesis by (simp add: add_record_commit_fails)
  qed
next
  show "table (committed r st) = table st @ [stored r st]" by (rule committed_table)
  show "logs (committed r st) = logs st" by (rule committed_other)
  show "fst (add_record w r st) = Inr ()
        \<or> (\<exists>e'. session_rollback w r = Some e' \<and> fst (add_record w r st) = Inl e')"
    by (rule add_record_raises_only_from_rollback)
qed

text \<open>A record of London is committed with the next key, without a rollback. The commit of
  a record of Paris fails: the error is logged, the rollback is called, and the table is
  as it was. Where the rollback raises too, the state is the same and its exception
  reaches the caller.\<close>

theorem add_record_outcomes_witness:
  "add_record demo_world demo_record demo_state =
     (Inr (), demo_state\<lparr>table := demo_rows @ [demo_record\<lparr>row_id := Some 6\<rparr>], next_id := 7,
        session_trace := [CallAdd demo_record, CallCommit, CallRefresh demo_record]\<rparr>)
   \<and> add_record demo_world (demo_record\<lparr>city := ''Paris''\<rparr>) demo_state =
     (Inr (), demo_state\<lparr>logs := [LogError ''Database error: '' (Some SQLAlchemyError)],
        session_trace := [CallAdd (demo_record\<lparr>city := ''Paris''\<rparr>), CallCommit, CallRollback]\<rparr>)
   \<and> add_record rollback_fails_world demo_record demo_state =
     (Inl OSError, demo_state\<lparr>logs := [LogError ''Database error: '' (Some SQLAlchemyError)],
        session_trace := [CallAdd demo_record, CallCommit, CallRollback]\<rparr>)"
proof -
  note a = add_record_outcomes[of demo_world demo_record demo_state]
  note b = add_record_outcomes[of demo_world "demo_record\<lparr>city := ''Paris''\<rparr>" demo_state]
  note c = add_record_outcomes[of rollback_fails_world demo_record demo_state]
  have ok: "session_add demo_world demo_record = None \<and>
      session_commit demo_world demo_record = None \<and>
      session_refresh demo_world demo_record = None"
    by (simp add: demo_world_def demo_record_def)
  have bad: "session_add demo_world (demo_record\<lparr>city := ''Paris''\<rparr>) = None
         \<and> session_commit demo_world (demo_record\<lparr>city := ''Paris''\<rparr>) = Some SQLAlchemyError"
    by (simp add: demo_world_def demo_record_def)
  have rb: "session_rollback demo_world (demo_record\<lparr>city := ''Paris''\<rparr>) = None"
    by (simp add: demo_world_def)
  have bad2: "session_add rollback_fails_world demo_record = None
         \<and> session_commit rollback_fails_world demo_record = Some SQLAlchemyError"
    by (simp add: rollback_fails_world_def demo_world_def)
  have rb2: "session_rollback rollback_fails_world demo_record = Some OSError"
    by (simp add: rollback_fails_world_def demo_world_def)
  have 1: "add_record demo_world demo_record demo_state =
     (Inr (), demo_state\<lparr>table := demo_rows @ [demo_record\<lparr>row_id := Some 6\<rparr>], next_id := 7,
        session_trace := [CallAdd demo_record, CallCommit, CallRefresh demo_record]\<rparr>)"
    using a[THEN conjunct1, rule_format, OF ok]
    by (simp add: committed_def demo_record_def demo_state_def)
  have 2: "add_record demo_world (demo_record\<lparr>city := ''Paris''\<rparr>) demo_state =
     (Inr (), demo_state\<lparr>logs := [LogError ''Database error: '' (Some SQLAlchemyError)],
        session_trace := [CallAdd (demo_record\<lparr>city := ''Paris''\<rparr>), CallCommit, CallRollback]\<rparr>)"
    using b[THEN conjunct2, THEN conjunct2, THEN conjunct1, rule_format, OF bad]
    by (simp add: rb demo_state_def)
  have 3: "add_record rollback_fails_world demo_record demo_state =
     (Inl OSError, demo_state\<lparr>logs := [LogError ''Database error: '' (Some SQLAlchemyError)],
        session_trace := [CallAdd demo_record, CallCommit, CallRollback]\<rparr>)"
    using c[THEN conjunct2, THEN conjunct2, THEN conjunct1, rule_format, OF bad2]
    by (simp add: rb2 demo_state_def)
  show ?thesis using 1 2 3 by (intro conjI)
qed

text \<open>
  Claim C5 as stated fails in two ways. Where \<open>session.refresh\<close> raises, a database
  operation has raised, the error is logged and the rollback is called, yet the table has
  changed: the commit came first. Where the commit and then the rollback raise, the
  exception of the rollback reaches the caller.
\<close>

theorem add_record_counterexample:
  "session_refresh refresh_fails_world demo_record = Some SQLAlchemyError
   \<and> add_record refresh_fails_world demo_record demo_state =
       (Inr (), demo_state\<lparr>table := demo_rows @ [demo_record\<lparr>row_id := Some 6\<rparr>],
                           next_id := 7,
                           logs := [LogError ''Database error: '' (Some SQLAlchemyError)],
                           session_trace := [CallAdd demo_record, CallCommit,
                                             CallRefresh demo_record, CallRollback]\<rparr>)
   \<and> table (snd (add_record refresh_fails_world demo_record demo_state)) \<noteq> table demo_state
   \<and> session_rollback rollback_fails_world demo_record = Some OSError
   \<and> fst (add_record rollback_fails_world demo_record demo_state) = Inl OSError"
  by (simp add: refresh_fails_world_def rollback_fails_world_def demo_world_def demo_record_def
      demo_state_def add_record_def add_record_handler_def committed_def logging_error_def
      session_call_def)

lemma add_record_effect:
  "\<exists>xs ys. table (snd (add_record w r st)) = table st @ xs
     \<and> logs (snd (add_record w r st)) = logs st @ ys
     \<and> http_trace (snd (add_record w r st)) = http_trace st"
  by (simp add: add_record_def add_record_handler_def logging_error_def Let_def
      session_call_def committed_table committed_other committed_session_call
      split: option.splits)

lemma get_weather_effect:
  "\<exists>ys. table (snd (get_weather w api c st)) = table st
     \<and> logs (snd (get_weather w api c st)) = logs st @ ys
     \<and> http_trace (snd (get_weather w api c st)) = http_trace st @ [complete_url api c]"
  unfolding get_weather_def Let_def
  by (auto split: sum.splits if_splits simp: logging_error_def)

lemma fetch_and_store_never_raises:
  "fst (fetch_and_store_weather w c api st) = Inr ()"
  unfolding fetch_and_store_weather_def
  by (simp split: prod.splits sum.splits option.splits add: Let_def)

lemma fetch_and_store_effect:
  "\<exists>xs ys. table (snd (fetch_and_store_weather w c api st)) = table st @ xs
     \<and> logs (snd (fetch_and_store_weather w c api st)) = logs st @ ys
     \<and> http_trace (snd (fetch_and_store_weather w c api st))
         = http_trace st @ [complete_url api c]"
proof -
  obtain res st1 where g: "get_weather w api c st = (res, st1)" by (cases "get_weather w api c st")
  obtain ys where st1: "table st1 = table st" "logs st1 = logs st @ ys"
    "http_trace st1 = http_trace st @ [complete_url api c]"
    using get_weather_effect[of w api c st] g by auto
  show ?thesis
  proof (cases res)
    case (Inl e)
    then show ?thesis
      using g st1 by (simp add: fetch_and_store_weather_def logging_error_def)
  next
    case (Inr o1)
    show ?thesis
    proof (cases o1)
      case None
      then show ?thesis using g st1 Inr by (simp add: fetch_and_store_weather_def)
    next
      case (Some d)
      show ?thesis
      proof (cases "validate w d")
        case (Inl e)
        then show ?thesis
          using g st1 Inr Some
          by (simp add: fetch_and_store_weather_def logging_error_def)
      next
        case r: (Inr r)
        obtain res2 st2 where a: "add_record w r st1 = (res2, st2)"
          by (cases "add_record w r st1")
        obtain xs zs where st2: "table st2 = table st1 @ xs" "logs st2 = logs st1 @ zs"
          "http_trace st2 = http_trace st1"
          using add_record_effect[of w r st1] a by auto
        show ?thesis
          using g st1 Inr Some r a st2
          by (cases res2) (simp_all add: fetch_and_store_weather_def logging_error_def)
      qed
    qed
  qed
qed

lemma submit_all_preserves:
  assumes "\<And>c' s. Q s \<Longrightarrow> Q (snd (fetch_and_store_weather w c' api s))" and "Q st"
  shows "Q (submit_all w api cs st)"
  using assms(2)
proof (induction cs arbitrary: st)
  case Nil
  then show ?case by simp
next
  case (Cons c cs)
  have "Q (snd (fetch_and_store_weather w c api st))"
    by (rule assms(1)[OF Cons.prems])
  then have "Q (submit_all w api cs (snd (fetch_and_store_weather w c api st)))"
    by (rule Cons.IH)
  then show ?case unfolding submit_all.simps .
qed

lemma submit_all_city:
  assumes "c \<in> set cs"
    and "\<And>s. Q (snd (fetch_and_store_weather w c api s))"
    and "\<And>c' s. Q s \<Longrightarrow> Q (snd (fetch_and_store_weather w c' api s))"
  shows "Q (submit_all w api cs st)"
  using assms(1)
proof (induction cs arbitrary: st)
  case Nil
  then show ?case by simp
next
  case (Cons c' cs)
  show ?case
  proof (cases "c = c'")
    case True
    have h: "Q (snd (fetch_and_store_weather w c' api st))"
      unfolding True[symmetric] by (rule assms(2))
    have "Q (submit_all w api cs (snd (fetch_and_store_weather w c' api st)))"
      by (rule submit_all_preserves[where Q = Q, OF assms(3) h])
    then show ?thesis unfolding submit_all.simps .
  next
    case False
    then have "c \<in> set cs" using Cons.prems by simp
    then have "Q (submit_all w api cs (snd (fetch_and_store_weather w c' api st)))"
      by (rule Cons.IH)
    then show ?thesis unfolding submit_all.simps .
  qed
qed

lemma submit_all_trace:
  "http_trace (submit_all w api cs st) = http_trace st @ map (complete_url api) cs"
proof (induction cs arbitrary: st)
  case Nil
  then show ?case by simp
next
  case (Cons c cs)
  have "http_trace (snd (fetch_and_store_weather w c api st)) = http_trace st @ [complete_url api c]"
    using fetch_and_store_effect[of w c api st] by auto
  then show ?case using Cons.IH by simp
qed

lemma table_grows:
  "x \<in> set (table s) \<Longrightarrow> x \<in> set (table (snd (fetch_and_store_weather w c api s)))"
  using fetch_and_store_effect[of w c api s] by auto

lemma logs_grow:
  "x \<in> set (logs s) \<Longrightarrow> x \<in> set (logs (snd (fetch_and_store_weather w c api s)))"
  using fetch_and_store_effect[of w c api s] by auto

lemma stored_shape: "\<exists>i. stored r st = r\<lparr>row_id := Some i\<rparr>"
proof (cases "row_id r")
  case None
  then have "stored r st = r\<lparr>row_id := Some (next_id st)\<rparr>" by (simp add: stored_def)
  then show ?thesis by (rule exI)
next
  case (Some i)
  then have "stored r st = r\<lparr>row_id := Some i\<rparr>" by (simp add: stored_def)
  then show ?thesis by (rule exI)
qed

lemma add_record_persists:
  assumes "session_add w r = None" "session_commit w r = None"
  shows "stored r st \<in> set (table (snd (add_record w r st)))"
  using assms
  by (simp add: add_record_def add_record_handler_def logging_error_def Let_def committed_table
      session_call_def stored_session_trace split: option.splits)

lemma fetch_and_store_persists:
  assumes "requests_get w (complete_url api c) = Inr resp" "status_code resp = 200"
    "weather_of_response w c resp = Inr d" "validate w d = Inr r"
    "session_add w r = None" "session_commit w r = None"
  shows "\<exists>i. r\<lparr>row_id := Some i\<rparr> \<in> set (table (snd (fetch_and_store_weather w c api st)))"
proof -
  let ?st1 = "st\<lparr>http_trace := http_trace st @ [complete_url api c]\<rparr>"
  have g: "get_weather w api c st = (Inr (Some d), ?st1)"
    by (rule get_weather_200[OF assms(1,2,3)])
  have p: "stored r ?st1 \<in> set (table (snd (add_record w r ?st1)))"
    by (rule add_record_persists[OF assms(5,6)])
  have "table (snd (fetch_and_store_weather w c api st)) = table (snd (add_record w r ?st1))"
    unfolding fetch_and_store_weather_def g
    by (simp add: assms(4) logging_error_def split: prod.splits sum.splits)
  then have "stored r ?st1 \<in> set (table (snd (fetch_and_store_weather w c api st)))"
    using p by simp
  then show ?thesis using stored_shape[of r ?st1] by auto
qed

lemma fetch_and_store_logs_validation:
  assumes "requests_get w (complete_url api c) = Inr resp" "status_code resp = 200"
    "weather_of_response w c resp = Inr d" "validate w d = Inl ValidationError"
  shows "LogError (''Validation error for '' @ c @ '': '') (Some ValidationError)
     \<in> set (logs (snd (fetch_and_store_weather w c api st)))"
  unfolding fetch_and_store_weather_def get_weather_200[OF assms(1,2,3)]
  by (simp add: assms(4) logging_error_def)

lemma add_record_logs_failure:
  assumes "session_add w r = Some e \<or> session_add w r = None \<and> session_commit w r = Some e"
  shows "LogError ''Database error: '' (Some e) \<in> set (logs (snd (add_record w r st)))"
  using assms
  by (auto simp: add_record_def add_record_handler_def logging_error_def Let_def
      session_call_def split: option.splits)

lemma fetch_and_store_logs_db:
  assumes "requests_get w (complete_url api c) = Inr resp" "status_code resp = 200"
    "weather_of_response w c resp = Inr d" "validate w d = Inr r"
    "session_add w r = Some e \<or> session_add w r = None \<and> session_commit w r = Some e"
  shows "LogError ''Database error: '' (Some e)
     \<in> set (logs (snd (fetch_and_store_weather w c api st)))"
proof -
  let ?st1 = "st\<lparr>http_trace := http_trace st @ [complete_url api c]\<rparr>"
  have g: "get_weather w api c st = (Inr (Some d), ?st1)"
    by (rule get_weather_200[OF assms(1,2,3)])
  have p: "LogError ''Database error: '' (Some e) \<in> set (logs (snd (add_record w r ?st1)))"
    by (rule add_record_logs_failure[OF assms(5)])
  obtain res2 st2 where a: "add_record w r ?st1 = (res2, st2)"
    by (cases "add_record w r ?st1")
  have "set (logs st2) \<subseteq> set (logs (snd (fetch_and_store_weather w c api st)))"
    unfolding fetch_and_store_weather_def g
    by (cases res2) (auto simp: assms(4) a logging_error_def)
  then show ?thesis using p a by auto
qed

lemma lambda_handler_ok:
  assumes "create_engine w = None" "create_tables w = None"
  shows "lambda_handler w st =
     (\<lparr>statusCode = 200, body = ''Weather data updated successfully''\<rparr>,
      submit_all w (WeatherAPI_init (env_api_key w)) cities st)"
  using assms by (simp add: lambda_handler_def)

lemma lambda_handler_failed:
  assumes "create_engine w \<noteq> None \<or> create_tables w \<noteq> None"
  shows "statusCode (fst (lambda_handler w st)) = 500
    \<and> http_trace (snd (lambda_handler w st)) = http_trace st
    \<and> table (snd (lambda_handler w st)) = table st"
  using assms
  by (auto simp: lambda_handler_def logging_error_def Let_def split: option.splits)

lemma submit_all_persists:
  assumes "c \<in> set cs" "requests_get w (complete_url api c) = Inr resp" "status_code resp = 200"
    "weather_of_response w c resp = Inr d" "validate w d = Inr r"
    "session_add w r = None" "session_commit w r = None"
  shows "\<exists>i. r\<lparr>row_id := Some i\<rparr> \<in> set (table (submit_all w api cs st))"
proof -
  define Q where "Q = (\<lambda>s::state. \<exists>i. r\<lparr>row_id := Some i\<rparr> \<in> set (table s))"
  have step: "Q (snd (fetch_and_store_weather w c api s))" for s
    unfolding Q_def by (rule fetch_and_store_persists[OF assms(2-7)])
  have mono: "Q s \<Longrightarrow> Q (snd (fetch_and_store_weather w c' api s))" for c' s
    unfolding Q_def using table_grows by blast
  have "Q (submit_all w api cs st)"
    by (rule submit_all_city[where Q = Q and c = c, OF assms(1) step mono])
  then show ?thesis unfolding Q_def .
qed

text \<open>
  Claim C3. \<open>fetch_and_store_weather\<close> never raises. When the engine and the tables
  are set up, \<open>lambda_handler\<close> returns status 200 whatever happens to single cities;
  every city of the list is fetched; a city whose response is 200, whose record passes
  validation and whose insert is committed is persisted, whatever the other cities do; a
  validation failure and a failed insert are logged. The same city is persisted in
  whatever order the tasks of a batch are run.
\<close>

theorem batch_continues_after_failures:
  "fst (fetch_and_store_weather w c api st) = Inr ()
   \<and> (\<forall>cs c resp d r. c \<in> set cs
         \<and> requests_get w (complete_url api c) = Inr resp
         \<and> status_code resp = 200 \<and> weather_of_response w c resp = Inr d
         \<and> validate w d = Inr r \<and> session_add w r = None \<and> session_commit w r = None \<longrightarrow>
       (\<exists>i. r\<lparr>row_id := Some i\<rparr> \<in> set (table (submit_all w api cs st))))
   \<and> (create_engine w = None \<and> create_tables w = None \<longrightarrow>
        statusCode (fst (lambda_handler w st)) = 200
      \<and> (\<forall>c\<in>set cities. complete_url (WeatherAPI_init (env_api_key w)) c
            \<in> set (http_trace (snd (lambda_handler w st))))
      \<and> (\<forall>c resp d r. c \<in> set cities
            \<and> requests_get w (complete_url (WeatherAPI_init (env_api_key w)) c) = Inr resp
            \<and> status_code resp = 200 \<and> weather_of_response w c resp = Inr d
            \<and> validate w d = Inr r \<and> session_add w r = None \<and> session_commit w r = None \<longrightarrow>
          (\<exists>i. r\<lparr>row_id := Some i\<rparr> \<in> set (table (snd (lambda_handler w st)))))
      \<and> (\<forall>c resp d. c \<in> set cities
            \<and> requests_get w (complete_url (WeatherAPI_init (env_api_key w)) c) = Inr resp
            \<and> status_code resp = 200 \<and> weather_of_response w c resp = Inr d
            \<and> validate w d = Inl ValidationError \<longrightarrow>
          LogError (''Validation error for '' @ c @ '': '') (Some ValidationError)
            \<in> set (logs (snd (lambda_handler w st))))
      \<and> (\<forall>c resp d r e. c \<in> set cities
            \<and> requests_get w (complete_url (WeatherAPI_init (env_api_key w)) c) = Inr resp
            \<and> status_code resp = 200 \<and> weather_of_response w c resp = Inr d
            \<and> validate w d = Inr r
            \<and> (session_add w r = Some e \<or> session_add w r = None \<and> session_commit w r = Some e)
            \<longrightarrow>
          LogError ''Database error: '' (Some e) \<in> set (logs (snd (lambda_handler w st)))))"
proof (intro conjI impI)
  show "fst (fetch_and_store_weather w c api st) = Inr ()"
    by (rule fetch_and_store_never_raises)
next
  show "\<forall>cs c resp d r. c \<in> set cs
         \<and> requests_get w (complete_url api c) = Inr resp
         \<and> status_code resp = 200 \<and> weather_of_response w c resp = Inr d
         \<and> validate w d = Inr r \<and> session_add w r = None \<and> session_commit w r = None \<longrightarrow>
       (\<exists>i. r\<lparr>row_id := Some i\<rparr> \<in> set (table (submit_all w api cs st)))"
  proof (intro allI impI)
    fix cs c resp d r
    assume a: "c \<in> set cs
         \<and> requests_get w (complete_url api c) = Inr resp
         \<and> status_code resp = 200 \<and> weather_of_response w c resp = Inr d
         \<and> validate w d = Inr r \<and> session_add w r = None \<and> session_commit w r = None"
    then have h: "c \<in> set cs" "requests_get w (complete_url api c) = Inr resp"
      "status_code resp = 200" "weather_of_response w c resp = Inr d"
      "validate w d = Inr r" "session_add w r = None" "session_commit w r = None"
      by simp_all
    show "\<exists>i. r\<lparr>row_id := Some i\<rparr> \<in> set (table (submit_all w api cs st))"
      by (rule submit_all_persists[OF h])
  qed
next
  let ?api = "WeatherAPI_init (env_api_key w)"
  assume "create_engine w = None \<and> create_tables w = None"
  then have ok: "create_engine w = None" "create_tables w = None" by simp_all
  note lh = lambda_handler_ok[OF ok, of st]
  show "statusCode (fst (lambda_handler w st)) = 200" unfolding lh by simp
  show "\<forall>c\<in>set cities. complete_url ?api c \<in> set (http_trace (snd (lambda_handler w st)))"
    unfolding lh snd_conv submit_all_trace by simp
  show "\<forall>c resp d r. c \<in> set cities
            \<and> requests_get w (complete_url ?api c) = Inr resp
            \<and> status_code resp = 200 \<and> weather_of_response w c resp = Inr d
            \<and> validate w d = Inr r \<and> session_add w r = None \<and> session_commit w r = None \<longrightarrow>
          (\<exists>i. r\<lparr>row_id := Some i\<rparr> \<in> set (table (snd (lambda_handler w st))))"
  proof (intro allI impI)
    fix c resp d r
    assume a: "c \<in> set cities
            \<and> requests_get w (complete_url ?api c) = Inr resp
            \<and> status_code resp = 200 \<and> weather_of_response w c resp = Inr d
            \<and> validate w d = Inr r \<and> session_add w r = None \<and> session_commit w r = None"
    then have h: "c \<in> set cities" "requests_get w (complete_url ?api c) = Inr resp"
      "status_code resp = 200" "weather_of_response w c resp = Inr d"
      "validate w d = Inr r" "session_add w r = None" "session_commit w r = None"
      by simp_all
    show "\<exists>i. r\<lparr>row_id := Some i\<rparr> \<in> set (table (snd (lambda_handler w st)))"
      unfolding lh snd_conv by (rule submit_all_persists[OF h])
  qed
  show "\<forall>c resp d. c \<in> set cities
            \<and> requests_get w (complete_url ?api c) = Inr resp
            \<and> status_code resp = 200 \<and> weather_of_response w c resp = Inr d
            \<and> validate w d = Inl ValidationError \<longrightarrow>
          LogError (''Validation error for '' @ c @ '': '') (Some ValidationError)
            \<in> set (logs (snd (lambda_handler w st)))"
  proof (intro allI impI)
    fix c resp d
    assume a: "c \<in> set cities
            \<and> requests_get w (complete_url ?api c) = Inr resp
            \<and> status_code resp = 200 \<and> weather_of_response w c resp = Inr d
            \<and> validate w d = Inl ValidationError"
    then have h: "c \<in> set cities" "requests_get w (complete_url ?api c) = Inr resp"
      "status_code resp = 200" "weather_of_response w c resp = Inr d"
      "validate w d = Inl ValidationError"
      by simp_all
    define Q where "Q = (\<lambda>s::state. LogError (''Validation error for '' @ c @ '': '')
        (Some ValidationError) \<in> set (logs s))"
    have step: "Q (snd (fetch_and_store_weather w c ?api s))" for s
      unfolding Q_def by (rule fetch_and_store_logs_validation[OF h(2-5)])
    have mono: "Q s \<Longrightarrow> Q (snd (fetch_and_store_weather w c' ?api s))" for c' s
      unfolding Q_def by (rule logs_grow)
    have "Q (submit_all w ?api cities st)"
      by (rule submit_all_city[where Q = Q and c = c, OF h(1) step mono])
    then show "LogError (''Validation error for '' @ c @ '': '') (Some ValidationError)
            \<in> set (logs (snd (lambda_handler w st)))"
      unfolding lh snd_conv Q_def .
  qed
  show "\<forall>c resp d r e. c \<in> set cities
            \<and> requests_get w (complete_url ?api c) = Inr resp
            \<and> status_code resp = 200 \<and> weather_of_response w c resp = Inr d
            \<and> validate w d = Inr r
            \<and> (session_add w r = Some e \<or> session_add w r = None \<and> session_commit w r = Some e)
            \<longrightarrow>
          LogError ''Database error: '' (Some e) \<in> set (logs (snd (lambda_handler w st)))"
  proof (intro allI impI)
    fix c resp d r e
    assume a: "c \<in> set cities
            \<and> requests_get w (complete_url ?api c) = Inr resp
            \<and> status_code resp = 200 \<and> weather_of_response w c resp = Inr d
            \<and> validate w d = Inr r
            \<and> (session_add w r = Some e \<or> session_add w r = None \<and> session_commit w r = Some e)"
    then have h: "c \<in> set cities" "requests_get w (complete_url ?api c) = Inr resp"
      "status_code resp = 200" "weather_of_response w c resp = Inr d"
      "validate w d = Inr r"
      "session_add w r = Some e \<or> session_add w r = None \<and> session_commit w r = Some e"
      by simp_all
    define Q where "Q = (\<lambda>s::state. LogError ''Database error: '' (Some e) \<in> set (logs s))"
    have step: "Q (snd (fetch_and_store_weather w c ?api s))" for s
      unfolding Q_def by (rule fetch_and_store_logs_db[OF h(2-6)])
    have mono: "Q s \<Longrightarrow> Q (snd (fetch_and_store_weather w c' ?api s))" for c' s
      unfolding Q_def by (rule logs_grow)
    have "Q (submit_all w ?api cities st)"
      by (rule submit_all_city[where Q = Q and c = c, OF h(1) step mono])
    then show "LogError ''Database error: '' (Some e) \<in> set (logs (snd (lambda_handler w st)))"
      unfolding lh snd_conv Q_def .
  qed
qed

lemma complete_url_inj: "complete_url api c = complete_url api c' \<Longrightarrow> c = c'"
  by (simp add: complete_url_def)

lemma cities_distinct: "distinct cities"
  by (simp add: cities_def)

lemma urls_distinct: "distinct (map (complete_url api) cities)"
  using cities_distinct complete_url_inj
  by (simp add: distinct_map inj_on_def)

text \<open>
  Claim C8. The list has 19 distinct cities with 19 distinct URLs. One invocation of
  \<open>lambda_handler\<close> requests exactly these URLs, one per city, when the setup succeeds,
  and none when it fails: at most 20 requests in every case. Each task makes exactly one
  request, and a batch makes one request per submitted task.
\<close>

theorem lambda_handler_one_request_per_city:
  "length cities = 19
   \<and> distinct cities
   \<and> distinct (map (complete_url (WeatherAPI_init (env_api_key w))) cities)
   \<and> (create_engine w = None \<and> create_tables w = None \<longrightarrow>
        http_trace (snd (lambda_handler w st))
          = http_trace st @ map (complete_url (WeatherAPI_init (env_api_key w))) cities)
   \<and> (create_engine w \<noteq> None \<or> create_tables w \<noteq> None \<longrightarrow>
        http_trace (snd (lambda_handler w st)) = http_trace st)
   \<and> length (http_trace (snd (lambda_handler w st))) \<le> length (http_trace st) + 20
   \<and> http_trace (snd (fetch_and_store_weather w c api st)) = http_trace st @ [complete_url api c]
   \<and> http_trace (submit_all w api cs st) = http_trace st @ map (complete_url api) cs"
proof -
  have len: "length cities = 19" by (simp add: cities_def)
  have one: "http_trace (snd (fetch_and_store_weather w c api st))
      = http_trace st @ [complete_url api c]"
    using fetch_and_store_effect[of w c api st] by auto
  have ok: "http_trace (snd (lambda_handler w st))
          = http_trace st @ map (complete_url (WeatherAPI_init (env_api_key w))) cities"
    if "create_engine w = None \<and> create_tables w = None"
    using that by (simp add: lambda_handler_ok submit_all_trace)
  have bad: "http_trace (snd (lambda_handler w st)) = http_trace st"
    if "create_engine w \<noteq> None \<or> create_tables w \<noteq> None"
    using lambda_handler_failed[OF that] by simp
  have bound: "length (http_trace (snd (lambda_handler w st))) \<le> length (http_trace st) + 20"
  proof (cases "create_engine w = None \<and> create_tables w = None")
    case True
    then show ?thesis using ok len by simp
  next
    case False
    then have "create_engine w \<noteq> None \<or> create_tables w \<noteq> None" by simp
    then show ?thesis using bad by simp
  qed
  show ?thesis
    using len cities_distinct urls_distinct ok bad bound one submit_all_trace
    by (intro conjI impI)
qed

lemma demo_setup: "create_engine demo_world = None \<and> create_tables demo_world = None"
  by (simp add: demo_world_def)

lemma demo_api_eq: "WeatherAPI_init (env_api_key demo_world) = demo_api"
  by (simp add: demo_world_def demo_api_def)

lemma demo_url_neq:
  "complete_url demo_api ''Madrid'' \<noteq> complete_url demo_api ''London''"
  "complete_url demo_api ''Paris'' \<noteq> complete_url demo_api ''London''"
  "complete_url demo_api ''Paris'' \<noteq> complete_url demo_api ''Madrid''"
  by (simp_all add: complete_url_def)

lemma demo_london_clean:
  "''London'' \<in> set cities
   \<and> requests_get demo_world (complete_url (WeatherAPI_init (env_api_key demo_world)) ''London'')
       = Inr \<lparr>status_code = 200, json_result = Inr (demo_body (JFloat 11))\<rparr>
   \<and> status_code \<lparr>status_code = 200, json_result = Inr (demo_body (JFloat 11))\<rparr> = 200
   \<and> weather_of_response demo_world ''London''
        \<lparr>status_code = 200, json_result = Inr (demo_body (JFloat 11))\<rparr>
       = Inr \<lparr>d_country = JStr ''GB'', d_city = ''London'', d_temperature = JFloat 11,
          d_rain_presence = True, d_weather_description = JStr ''light rain'',
          d_weather_data_date =
            \<lparr>ordinal = 738951, hour = 9, minute = 0, second = 0, microsecond = 0\<rparr>\<rparr>
   \<and> validate demo_world \<lparr>d_country = JStr ''GB'', d_city = ''London'', d_temperature = JFloat 11,
          d_rain_presence = True, d_weather_description = JStr ''light rain'',
          d_weather_data_date =
            \<lparr>ordinal = 738951, hour = 9, minute = 0, second = 0, microsecond = 0\<rparr>\<rparr>
       = Inr demo_record
   \<and> session_add demo_world demo_record = None
   \<and> session_commit demo_world demo_record = None"
proof -
  have 1: "''London'' \<in> set cities" by (simp add: cities_def)
  have 5: "validate demo_world \<lparr>d_country = JStr ''GB'', d_city = ''London'',
          d_temperature = JFloat 11,
          d_rain_presence = True, d_weather_description = JStr ''light rain'',
          d_weather_data_date =
            \<lparr>ordinal = 738951, hour = 9, minute = 0, second = 0, microsecond = 0\<rparr>\<rparr>
       = Inr demo_record"
    by (simp add: demo_world_def demo_record_def)
  have 6: "session_add demo_world demo_record = None"
    "session_commit demo_world demo_record = None"
    by (simp_all add: demo_world_def demo_record_def)
  show ?thesis
    unfolding demo_api_eq
    using 1 demo_london_get demo_london_response 5 6 by (intro conjI) simp_all
qed

lemma demo_madrid_invalid:
  "''Madrid'' \<in> set cities
   \<and> requests_get demo_world (complete_url (WeatherAPI_init (env_api_key demo_world)) ''Madrid'')
       = Inr \<lparr>status_code = 200, json_result = Inr (demo_body (JStr ''warm''))\<rparr>
   \<and> status_code \<lparr>status_code = 200, json_result = Inr (demo_body (JStr ''warm''))\<rparr> = 200
   \<and> weather_of_response demo_world ''Madrid''
        \<lparr>status_code = 200, json_result = Inr (demo_body (JStr ''warm''))\<rparr>
       = Inr \<lparr>d_country = JStr ''GB'', d_city = ''Madrid'', d_temperature = JStr ''warm'',
          d_rain_presence = True, d_weather_description = JStr ''light rain'',
          d_weather_data_date =
            \<lparr>ordinal = 738951, hour = 9, minute = 0, second = 0, microsecond = 0\<rparr>\<rparr>
   \<and> validate demo_world \<lparr>d_country = JStr ''GB'', d_city = ''Madrid'',
          d_temperature = JStr ''warm'',
          d_rain_presence = True, d_weather_description = JStr ''light rain'',
          d_weather_data_date =
            \<lparr>ordinal = 738951, hour = 9, minute = 0, second = 0, microsecond = 0\<rparr>\<rparr>
       = Inl ValidationError"
proof -
  have 1: "''Madrid'' \<in> set cities" by (simp add: cities_def)
  have 2: "requests_get demo_world (complete_url demo_api ''Madrid'')
       = Inr \<lparr>status_code = 200, json_result = Inr (demo_body (JStr ''warm''))\<rparr>"
    using demo_url_neq by (simp add: demo_world_def)
  have 4: "weather_of_response demo_world ''Madrid''
        \<lparr>status_code = 200, json_result = Inr (demo_body (JStr ''warm''))\<rparr>
       = Inr \<lparr>d_country = JStr ''GB'', d_city = ''Madrid'', d_temperature = JStr ''warm'',
          d_rain_presence = True, d_weather_description = JStr ''light rain'',
          d_weather_data_date =
            \<lparr>ordinal = 738951, hour = 9, minute = 0, second = 0, microsecond = 0\<rparr>\<rparr>"
    by (simp add: weather_of_response_def bind_exn_def demo_body_def demo_world_def)
  have 5: "validate demo_world \<lparr>d_country = JStr ''GB'', d_city = ''Madrid'',
          d_temperature = JStr ''warm'',
          d_rain_presence = True, d_weather_description = JStr ''light rain'',
          d_weather_data_date =
            \<lparr>ordinal = 738951, hour = 9, minute = 0, second = 0, microsecond = 0\<rparr>\<rparr>
       = Inl ValidationError"
    by (simp add: demo_world_def)
  show ?thesis
    unfolding demo_api_eq using 1 2 4 5 by (intro conjI) simp_all
qed

text \<open>Madrid fails validation; London is persisted all the same, and the status is 200.\<close>

theorem batch_continues_after_failures_witness:
  "create_engine demo_world = None \<and> create_tables demo_world = None
   \<and> fst (fetch_and_store_weather demo_world ''Madrid'' demo_api demo_state) = Inr ()
   \<and> statusCode (fst (lambda_handler demo_world demo_state)) = 200
   \<and> (\<exists>i. demo_record\<lparr>row_id := Some i\<rparr>
         \<in> set (table (snd (lambda_handler demo_world demo_state))))
   \<and> LogError ''Validation error for Madrid: '' (Some ValidationError)
       \<in> set (logs (snd (lambda_handler demo_world demo_state)))"
proof -
  note th = batch_continues_after_failures[of demo_world "''Madrid''" demo_api demo_state]
  note batch = th[THEN conjunct2, THEN conjunct2, rule_format, OF demo_setup]
  have 1: "fst (fetch_and_store_weather demo_world ''Madrid'' demo_api demo_state) = Inr ()"
    using th by (rule conjunct1)
  have 2: "statusCode (fst (lambda_handler demo_world demo_state)) = 200"
    using batch by (rule conjunct1)
  have 3: "\<exists>i. demo_record\<lparr>row_id := Some i\<rparr>
         \<in> set (table (snd (lambda_handler demo_world demo_state)))"
    by (rule batch[THEN conjunct2, THEN conjunct2, THEN conjunct1, rule_format,
          OF demo_london_clean])
  have 4: "LogError (''Validation error for '' @ ''Madrid'' @ '': '') (Some ValidationError)
       \<in> set (logs (snd (lambda_handler demo_world demo_state)))"
    by (rule batch[THEN conjunct2, THEN conjunct2, THEN conjunct2, THEN conjunct1, rule_format,
          OF demo_madrid_invalid])
  show ?thesis using demo_setup 1 2 3 4 by simp
qed

text \<open>The 19 requests of one invocation.\<close>

theorem lambda_handler_one_request_per_city_witness:
  "create_engine demo_world = None \<and> create_tables demo_world = None
   \<and> http_trace (snd (lambda_handler demo_world demo_state)) = map (complete_url demo_api) cities
   \<and> length (http_trace (snd (lambda_handler demo_world demo_state))) = 19"
proof -
  note th = lambda_handler_one_request_per_city[of demo_world demo_state]
  have len: "length cities = 19" using th by (rule conjunct1)
  have tr: "http_trace (snd (lambda_handler demo_world demo_state))
      = http_trace demo_state @ map (complete_url (WeatherAPI_init (env_api_key demo_world))) cities"
    by (rule th[THEN conjunct2, THEN conjunct2, THEN conjunct2, THEN conjunct1, rule_format,
          OF demo_setup])
  have e: "http_trace demo_state = []" by (simp add: demo_state_def)
  show ?thesis using demo_setup tr len unfolding e demo_api_eq by simp
qed

end
